theory Spec2Isabelle
  imports Complex_Main
begin

section \<open>Python values, exceptions and dictionaries\<close>

text \<open>
  The simulation server is Python over numpy and scipy. Its functions are embedded as HOL
  functions: an exception that leaves a function is the \<open>Inl\<close> branch of its result, a
  dictionary is an association list in insertion order (the server reads the key order of
  \<open>initial_conditions\<close>), and the numpy global random state is passed in and out.

  Floating-point numbers are idealised: a float is a real number or NaN (\<open>None\<close>).
  Rounding, overflow and the infinities are outside the model. NaN is kept because the
  Monte Carlo solver takes \<open>np.sqrt\<close> of a time step that is negative on a reversed span,
  which numpy answers with NaN and not with an exception.
\<close>

datatype py_error =
    ValueError
  | TypeError
  | IndexError
  | ZeroDivisionError
  | RuntimeError string
  | ValidationError
  | OtherError string

type_synonym flt = "real option"

type_synonym 'v dict = "(string \<times> 'v) list"

definition bnd :: "py_error + 'a \<Rightarrow> ('a \<Rightarrow> py_error + 'b) \<Rightarrow> py_error + 'b" where
  "bnd r f = (case r of Inl e \<Rightarrow> Inl e | Inr x \<Rightarrow> f x)"

text \<open>\<^verbatim>\<open>d.get(k, default)\<close>\<close>

definition dict_get :: "'v dict \<Rightarrow> string \<Rightarrow> 'v \<Rightarrow> 'v" where
  "dict_get d k dflt = (case map_of d k of None \<Rightarrow> dflt | Some v \<Rightarrow> v)"

text \<open>\<^verbatim>\<open>int(x)\<close> of a float truncates towards zero.\<close>

definition py_int :: "real \<Rightarrow> int" where
  "py_int x = (if 0 \<le> x then \<lfloor>x\<rfloor> else \<lceil>x\<rceil>)"

subsection \<open>Float arithmetic with NaN\<close>

definition lift2 :: "(real \<Rightarrow> real \<Rightarrow> real) \<Rightarrow> flt \<Rightarrow> flt \<Rightarrow> flt" where
  "lift2 f a b = (case a of None \<Rightarrow> None | Some x \<Rightarrow> (case b of None \<Rightarrow> None | Some y \<Rightarrow> Some (f x y)))"

definition fadd :: "flt \<Rightarrow> flt \<Rightarrow> flt" where
  "fadd = lift2 (+)"

definition fsub :: "flt \<Rightarrow> flt \<Rightarrow> flt" where
  "fsub = lift2 (-)"

definition fmul :: "flt \<Rightarrow> flt \<Rightarrow> flt" where
  "fmul = lift2 (*)"

definition fdiv :: "flt \<Rightarrow> flt \<Rightarrow> flt" where
  "fdiv = lift2 (/)"

definition fexp :: "flt \<Rightarrow> flt" where
  "fexp = map_option exp"

text \<open>A comparison with NaN is false.\<close>

definition fgt :: "flt \<Rightarrow> real \<Rightarrow> bool" where
  "fgt a y = (case a of None \<Rightarrow> False | Some x \<Rightarrow> y < x)"

text \<open>\<^verbatim>\<open>np.sqrt\<close>: NaN (with a warning, no exception) below zero.\<close>

definition np_sqrt :: "real \<Rightarrow> flt" where
  "np_sqrt x = (if x < 0 then None else Some (sqrt x))"

text \<open>A numpy reduction over values one of which is NaN is NaN.\<close>

definition nan_lift :: "(real list \<Rightarrow> real) \<Rightarrow> flt list \<Rightarrow> flt" where
  "nan_lift f xs = map_option f (those xs)"

subsection \<open>numpy on one-dimensional arrays\<close>

text \<open>
  \<^verbatim>\<open>np.linspace(start, stop, num)\<close>: \<open>num\<close> points, the \<open>i\<close>-th at \<open>start + i * step\<close>
  with \<open>step = (stop - start) / (num - 1)\<close>, and the last one then overwritten with
  \<open>stop\<close>; one point \<open>[start]\<close> for \<open>num = 1\<close>, none for \<open>num = 0\<close>, ValueError below.
\<close>

definition np_linspace :: "real \<Rightarrow> real \<Rightarrow> int \<Rightarrow> py_error + real list" where
  "np_linspace start stop num =
     (if num < 0 then Inl ValueError
      else if num = 0 then Inr []
      else if num = 1 then Inr [start]
      else Inr (map (\<lambda>i. start + real i * ((stop - start) / real_of_int (num - 1)))
                  [0 ..< nat num - 1] @ [stop]))"

definition mean :: "real list \<Rightarrow> real" where
  "mean xs = sum_list xs / real (length xs)"

definition median :: "real list \<Rightarrow> real" where
  "median xs =
     (let s = sort xs; n = length s
      in if even n then (s ! (n div 2 - 1) + s ! (n div 2)) / 2 else s ! (n div 2))"

definition std :: "real list \<Rightarrow> real" where
  "std xs = sqrt (mean (map (\<lambda>x. (x - mean xs)\<^sup>2) xs))"

definition minimum :: "real list \<Rightarrow> real" where
  "minimum xs = fold min (tl xs) (hd xs)"

definition maximum :: "real list \<Rightarrow> real" where
  "maximum xs = fold max (tl xs) (hd xs)"

text \<open>\<^verbatim>\<open>np.percentile(a, q)\<close>, linear interpolation between the two nearest ranks.\<close>

definition percentile :: "real \<Rightarrow> real list \<Rightarrow> real" where
  "percentile q xs =
     (let s = sort xs; n = length s;
          pos = q / 100 * real (n - 1);
          lo = nat \<lfloor>pos\<rfloor>;
          hi = min (lo + 1) (n - 1)
      in s ! lo + (pos - real lo) * (s ! hi - s ! lo))"

text \<open>
  \<^verbatim>\<open>np.mean\<close>, \<^verbatim>\<open>np.median\<close> and \<^verbatim>\<open>np.std\<close> of no values are NaN (with a warning);
  \<^verbatim>\<open>np.min\<close> and \<^verbatim>\<open>np.max\<close> of no values raise, which their callers check.
\<close>

definition np_mean :: "flt list \<Rightarrow> flt" where
  "np_mean xs = (if xs = [] then None else nan_lift mean xs)"

definition np_median :: "flt list \<Rightarrow> flt" where
  "np_median xs = (if xs = [] then None else nan_lift median xs)"

definition np_std :: "flt list \<Rightarrow> flt" where
  "np_std xs = (if xs = [] then None else nan_lift std xs)"

text \<open>\<^verbatim>\<open>a.max()\<close>, \<^verbatim>\<open>a.min()\<close>, \<^verbatim>\<open>a.argmax()\<close>, \<^verbatim>\<open>a.argmin()\<close> of a row of reals: the
  first position of the extremum; ValueError on an empty row.\<close>

fun first_index :: "real \<Rightarrow> real list \<Rightarrow> nat" where
  "first_index v [] = 0"
| "first_index v (x # xs) = (if x = v then 0 else Suc (first_index v xs))"

definition arr_max :: "real list \<Rightarrow> py_error + real" where
  "arr_max xs = (if xs = [] then Inl ValueError else Inr (maximum xs))"

definition arr_min :: "real list \<Rightarrow> py_error + real" where
  "arr_min xs = (if xs = [] then Inl ValueError else Inr (minimum xs))"

definition arr_argmax :: "real list \<Rightarrow> py_error + nat" where
  "arr_argmax xs = (if xs = [] then Inl ValueError else Inr (first_index (maximum xs) xs))"

definition arr_argmin :: "real list \<Rightarrow> py_error + nat" where
  "arr_argmin xs = (if xs = [] then Inl ValueError else Inr (first_index (minimum xs) xs))"

text \<open>\<^verbatim>\<open>a[i]\<close> with \<open>0 \<le> i\<close>: IndexError out of range.\<close>

definition arr_get :: "'a list \<Rightarrow> nat \<Rightarrow> py_error + 'a" where
  "arr_get xs i = (if i < length xs then Inr (xs ! i) else Inl IndexError)"

text \<open>\<^verbatim>\<open>a[-1]\<close>\<close>

definition arr_last :: "'a list \<Rightarrow> py_error + 'a" where
  "arr_last xs = (if xs = [] then Inl IndexError else Inr (last xs))"

subsection \<open>The numpy global random state\<close>

text \<open>
  The state of \<^verbatim>\<open>np.random\<close> is the stream of standard normal variates it will hand out
  next. \<^verbatim>\<open>np.random.normal(loc, scale, n)\<close> takes the next \<open>n\<close> of them, each as
  \<open>loc + scale * z\<close>. (numpy refuses a negative scale; the only caller passes the result
  of \<open>np_sqrt\<close>, which is never negative.)
\<close>

type_synonym rng = "nat \<Rightarrow> real"

definition np_random_normal :: "real \<Rightarrow> flt \<Rightarrow> nat \<Rightarrow> rng \<Rightarrow> flt list \<times> rng" where
  "np_random_normal loc scale n g =
     (map (\<lambda>i. fadd (Some loc) (fmul scale (Some (g i)))) [0 ..< n], \<lambda>i. g (i + n))"

section \<open>The request and the outside world\<close>

datatype domain = Epidemiology | Physics | Finance | Custom

datatype model_type = SIR | LotkaVolterra | Logistic | Projectile | MonteCarlo

datatype ode_method = RK45 | RK23 | DOP853

record time_span =
  start :: real
  finish :: real
  steps :: int
  preview_mode :: bool

record simulate_model_input =
  domain :: domain
  model_type :: model_type
  parameters :: "real dict"
  initial_conditions :: "real dict"
  time_span :: time_span
  integration_method :: ode_method
  sensitivity :: "real dict option"
  tags :: "string list option"
  return_data :: bool
  save_artifacts :: bool

text \<open>The validator of \<^verbatim>\<open>TimeSpan.steps\<close>.\<close>

definition min_steps :: "int \<Rightarrow> py_error + int" where
  "min_steps v = (if v < 2 then Inl ValueError else Inr v)"

text \<open>The response: \<^verbatim>\<open>Artifact\<close> and \<^verbatim>\<open>SimulateModelOutput\<close>.\<close>

datatype artifact_kind = Plot | Csv | Json

record artifact =
  kind :: artifact_kind
  path :: string
  sha256 :: "string option"

datatype status = StatusSuccess | StatusError

record simulate_model_output =
  status :: status
  message :: string
  summary :: "string option"
  artifacts :: "artifact list"
  metrics :: "flt dict"
  columns :: "string list option"
  data :: "flt dict list option"

text \<open>
  \<^verbatim>\<open>CallToolResult\<close>: either a text with \<^verbatim>\<open>isError=True\<close>, or the output (as JSON text
  and under \<^verbatim>\<open>_meta["result"]\<close>).
\<close>

datatype call_tool_result = ToolError string | ToolResult simulate_model_output

text \<open>What \<^verbatim>\<open>scipy.integrate.solve_ivp\<close> returns: \<^verbatim>\<open>sol.success\<close>, \<^verbatim>\<open>sol.message\<close>,
  \<^verbatim>\<open>sol.t\<close> and \<^verbatim>\<open>sol.y\<close> (one row per state variable).\<close>

record ode_result =
  sol_success :: bool
  sol_message :: string
  sol_t :: "real list"
  sol_y :: "real list list"

type_synonym rhs = "real \<Rightarrow> real list \<Rightarrow> py_error + real list"

datatype schema_verdict = SchemaAccepts | SchemaRejects string | SchemaRaises py_error

text \<open>
  The collaborators the server calls and does not implement: the adaptive integrator,
  the seeding of the random generator, the rendering of format strings and of exception
  texts, the optional JSON schema of the request (\<open>None\<close> when the schema file is absent),
  the file system behind the two artifact writers, the clock and the uuid source.
\<close>

record env =
  solve_ivp :: "rhs \<Rightarrow> real \<times> real \<Rightarrow> real list \<Rightarrow> ode_method \<Rightarrow> real list \<Rightarrow> py_error + ode_result"
  seeded_stream :: "nat \<Rightarrow> rng"
  fstring :: "string \<Rightarrow> flt list \<Rightarrow> string"
  float_of_str :: "string \<Rightarrow> flt option"
  exc_text :: "py_error \<Rightarrow> string"
  input_schema :: "(simulate_model_input \<Rightarrow> schema_verdict) option"
  csv_file :: "string \<Rightarrow> string list \<Rightarrow> flt list list \<Rightarrow> py_error option"
  png_file :: "string \<Rightarrow> string list \<Rightarrow> real list \<Rightarrow> flt list list \<Rightarrow> py_error option"
  out_dir :: string
  utc_stamp :: string
  uuid_hex8 :: string

text \<open>\<^verbatim>\<open>np.random.seed(k)\<close>: the seed must lie in \<open>[0, 2^32)\<close>.\<close>

definition np_random_seed :: "env \<Rightarrow> int \<Rightarrow> py_error + rng" where
  "np_random_seed ev k =
     (if 0 \<le> k \<and> k < 2 ^ 32 then Inr (seeded_stream ev (nat k)) else Inl ValueError)"

section \<open>The solvers\<close>

text \<open>A metrics bundle holds floats, an int (\<open>n_paths\<close>), the summary string and, for
  Monte Carlo, the nested percentile table.\<close>

datatype mval =
    MFloat flt
  | MInt int
  | MStr string
  | MDict "(string \<times> flt list) list"

type_synonym metrics_bundle = "mval dict"

type_synonym solver_result = "real list \<times> flt list list \<times> metrics_bundle"

subsection \<open>models/monte\_carlo.py\<close>

text \<open>One pass of the loop body: \<^verbatim>\<open>paths[:, i] = paths[:, i-1] * np.exp((mu - 0.5 * sigma**2) * dt + sigma * dW)\<close>.
  The matrix \<open>paths\<close> is held by columns, one column per time index.\<close>

definition gbm_step :: "real \<Rightarrow> real \<Rightarrow> real \<Rightarrow> flt list \<Rightarrow> flt list \<Rightarrow> flt list" where
  "gbm_step mu sigma dt prev dW =
     map2 (\<lambda>p w. fmul p (fexp (fadd (Some ((mu - 0.5 * sigma\<^sup>2) * dt)) (fmul (Some sigma) w))))
       prev dW"

text \<open>\<^verbatim>\<open>for i in range(1, steps)\<close>, with \<open>k\<close> passes left.\<close>

fun gbm_loop :: "real \<Rightarrow> real \<Rightarrow> real \<Rightarrow> nat \<Rightarrow> nat \<Rightarrow> flt list \<Rightarrow> rng \<Rightarrow> flt list list \<times> rng" where
  "gbm_loop mu sigma dt n 0 prev g = ([], g)"
| "gbm_loop mu sigma dt n (Suc k) prev g =
     (case np_random_normal 0 (np_sqrt dt) n g of (dW, g1) \<Rightarrow>
        (case gbm_loop mu sigma dt n k (gbm_step mu sigma dt prev dW) g1 of (cols, g2) \<Rightarrow>
           (gbm_step mu sigma dt prev dW # cols, g2)))"

text \<open>\<^verbatim>\<open>np.mean(paths[:, -1] > S0) * 100\<close>\<close>

definition prob_profit_pct :: "flt list \<Rightarrow> real \<Rightarrow> real" where
  "prob_profit_pct final S0 =
     real (length (filter (\<lambda>p. fgt p S0) final)) / real (length final) * 100"

definition mc_metrics :: "env \<Rightarrow> real \<Rightarrow> real \<Rightarrow> int \<Rightarrow> real \<Rightarrow> flt list list \<Rightarrow> metrics_bundle" where
  "mc_metrics ev mu sigma n_paths S0 cols =
     (let final_mean = np_mean (last cols);
          final_median = np_median (last cols);
          final_std = np_std (last cols);
          final_min = nan_lift minimum (last cols);
          final_max = nan_lift maximum (last cols);
          expected_return = fmul (fdiv (fsub final_mean (Some S0)) (Some S0)) (Some 100);
          max_return = fmul (fdiv (fsub final_max (Some S0)) (Some S0)) (Some 100);
          min_return = fmul (fdiv (fsub final_min (Some S0)) (Some S0)) (Some 100);
          prob_profit = prob_profit_pct (last cols) S0
      in [(''S_initial'', MFloat (Some S0)),
          (''S_final_mean'', MFloat final_mean),
          (''S_final_median'', MFloat final_median),
          (''S_final_std'', MFloat final_std),
          (''S_final_min'', MFloat final_min),
          (''S_final_max'', MFloat final_max),
          (''expected_return_pct'', MFloat expected_return),
          (''max_return_pct'', MFloat max_return),
          (''min_return_pct'', MFloat min_return),
          (''prob_profit_pct'', MFloat (Some prob_profit)),
          (''n_paths'', MInt n_paths),
          (''mu'', MFloat (Some mu)),
          (''sigma'', MFloat (Some sigma)),
          (''summary'', MStr (fstring ev
             ''Monte Carlo ({} paths): Mean final price {:.2f} (return {:.1f}%), probability of profit {:.1f}%''
             [Some (real_of_int n_paths), final_mean, expected_return, Some prob_profit])),
          (''percentiles'', MDict
             [(''p5'', map (nan_lift (percentile 5)) cols),
              (''p25'', map (nan_lift (percentile 25)) cols),
              (''p75'', map (nan_lift (percentile 75)) cols),
              (''p95'', map (nan_lift (percentile 95)) cols)])])"

text \<open>
  The function proper. In source order, the places where it can raise:
  \<^verbatim>\<open>np.random.seed\<close> (seed out of range), \<^verbatim>\<open>np.linspace\<close> (negative \<open>steps\<close>),
  \<^verbatim>\<open>np.zeros\<close> (negative \<open>n_paths\<close>), \<^verbatim>\<open>paths[:, 0] = S0\<close> (no column when \<open>steps = 0\<close>),
  \<^verbatim>\<open>np.min\<close> (no path), and the Python float division by \<open>S0 = 0\<close>.
  The random state it leaves behind is the one reached when it returns or raises.
  The argument \<^verbatim>\<open>method\<close> is accepted and, as the source says, not used.
\<close>

definition simulate_monte_carlo ::
  "env \<Rightarrow> real dict \<Rightarrow> real dict \<Rightarrow> real \<times> real \<Rightarrow> int \<Rightarrow> ode_method \<Rightarrow> rng
     \<Rightarrow> (py_error + solver_result) \<times> rng" where
  "simulate_monte_carlo ev pars y0 tspan nsteps meth g =
     (let mu = dict_get pars ''mu'' 0.1;
          sigma = dict_get pars ''sigma'' 0.2;
          n_paths = py_int (dict_get pars ''n_paths'' 100);
          seed = map_of pars ''seed'';
          S0 = dict_get y0 ''S'' 100
      in case (case seed of None \<Rightarrow> Inr g | Some s \<Rightarrow> np_random_seed ev (py_int s)) of
           Inl e \<Rightarrow> (Inl e, g)
         | Inr g0 \<Rightarrow>
             (case np_linspace (fst tspan) (snd tspan) nsteps of
                Inl e \<Rightarrow> (Inl e, g0)
              | Inr t \<Rightarrow>
                  (let dt = (if nsteps > 1 then (snd tspan - fst tspan) / real_of_int (nsteps - 1) else 0)
                   in if n_paths < 0 then (Inl ValueError, g0)
                      else if nsteps = 0 then (Inl IndexError, g0)
                      else
                        (case gbm_loop mu sigma dt (nat n_paths) (nat nsteps - 1)
                                (replicate (nat n_paths) (Some S0)) g0 of
                           (cols, g1) \<Rightarrow>
                             (let paths = replicate (nat n_paths) (Some S0) # cols;
                                  S_mean = map np_mean paths
                              in if n_paths = 0 then (Inl ValueError, g1)
                                 else if S0 = 0 then (Inl ZeroDivisionError, g1)
                                 else (Inr (t, [S_mean], mc_metrics ev mu sigma n_paths S0 paths), g1))))))"

subsection \<open>The solvers over the integrator\<close>

text \<open>
  The four remaining solvers share one shape: read parameters and initial state by name
  with defaults, build the evaluation grid, call \<^verbatim>\<open>solve_ivp\<close> with \<^verbatim>\<open>rtol=1e-6\<close> and
  \<^verbatim>\<open>atol=1e-9\<close> (fixed, hence not arguments of the model), raise RuntimeError with the
  integrator's message when \<^verbatim>\<open>sol.success\<close> is false, and reduce the rows of \<^verbatim>\<open>sol.y\<close>
  to metrics. They return \<^verbatim>\<open>sol.t\<close> and \<^verbatim>\<open>sol.y\<close> as they come. In the format templates
  the sign for "approximately" is written \<open>~\<close>.
\<close>

definition integrate ::
  "env \<Rightarrow> rhs \<Rightarrow> real \<times> real \<Rightarrow> real list \<Rightarrow> ode_method \<Rightarrow> int \<Rightarrow> py_error + ode_result" where
  "integrate ev f tspan y0_vec meth nsteps =
     bnd (np_linspace (fst tspan) (snd tspan) nsteps) (\<lambda>t_eval.
     bnd (solve_ivp ev f tspan y0_vec meth t_eval) (\<lambda>sol.
     if \<not> sol_success sol then Inl (RuntimeError (sol_message sol)) else Inr sol))"

definition as_floats :: "real list list \<Rightarrow> flt list list" where
  "as_floats Y = map (map Some) Y"

text \<open>models/sir.py\<close>

definition sir_rhs :: "real \<Rightarrow> real \<Rightarrow> rhs" where
  "sir_rhs beta gamma t y =
     (case y of
        [S, I, R] \<Rightarrow> Inr [- beta * S * I, beta * S * I - gamma * I, gamma * I]
      | _ \<Rightarrow> Inl ValueError)"

definition simulate_sir ::
  "env \<Rightarrow> real dict \<Rightarrow> real dict \<Rightarrow> real \<times> real \<Rightarrow> int \<Rightarrow> ode_method \<Rightarrow> py_error + solver_result" where
  "simulate_sir ev pars y0 tspan nsteps meth =
     (let beta = dict_get pars ''beta'' 0.3;
          gamma = dict_get pars ''gamma'' 0.1;
          S0 = dict_get y0 ''S'' 0.99;
          I0 = dict_get y0 ''I'' 0.01;
          R0 = dict_get y0 ''R'' 0.0
      in bnd (integrate ev (sir_rhs beta gamma) tspan [S0, I0, R0] meth nsteps) (\<lambda>sol.
         bnd (arr_get (sol_y sol) 1) (\<lambda>I_vals.
         bnd (arr_max I_vals) (\<lambda>I_peak.
         bnd (arr_argmax I_vals) (\<lambda>k.
         bnd (arr_get (sol_t sol) k) (\<lambda>t_peak.
         Inr (sol_t sol, as_floats (sol_y sol),
              [(''I_peak'', MFloat (Some I_peak)),
               (''t_peak'', MFloat (Some t_peak)),
               (''summary'', MStr (fstring ev ''Peak infection {:.4f} at t ~ {:.2f}''
                  [Some I_peak, Some t_peak]))])))))))"

text \<open>models/lotka\_volterra.py\<close>

definition lv_rhs :: "real \<Rightarrow> real \<Rightarrow> real \<Rightarrow> real \<Rightarrow> rhs" where
  "lv_rhs alpha beta delta gamma t y =
     (case y of
        [x, y_pred] \<Rightarrow> Inr [alpha * x - beta * x * y_pred, delta * x * y_pred - gamma * y_pred]
      | _ \<Rightarrow> Inl ValueError)"

definition simulate_lotka_volterra ::
  "env \<Rightarrow> real dict \<Rightarrow> real dict \<Rightarrow> real \<times> real \<Rightarrow> int \<Rightarrow> ode_method \<Rightarrow> py_error + solver_result" where
  "simulate_lotka_volterra ev pars y0 tspan nsteps meth =
     (let alpha = dict_get pars ''alpha'' 1.0;
          beta = dict_get pars ''beta'' 0.1;
          delta = dict_get pars ''delta'' 0.075;
          gamma = dict_get pars ''gamma'' 1.5;
          x0 = dict_get y0 ''x'' 10.0;
          y0_val = dict_get y0 ''y'' 5.0
      in bnd (integrate ev (lv_rhs alpha beta delta gamma) tspan [x0, y0_val] meth nsteps) (\<lambda>sol.
         bnd (arr_get (sol_y sol) 0) (\<lambda>x_vals.
         bnd (arr_get (sol_y sol) 1) (\<lambda>y_vals.
         bnd (arr_max x_vals) (\<lambda>x_max.
         bnd (arr_min x_vals) (\<lambda>x_min.
         bnd (arr_max y_vals) (\<lambda>y_max.
         bnd (arr_min y_vals) (\<lambda>y_min.
         (let x_mean = mean x_vals; y_mean = mean y_vals
          in Inr (sol_t sol, as_floats (sol_y sol),
              [(''x_max'', MFloat (Some x_max)),
               (''x_min'', MFloat (Some x_min)),
               (''x_mean'', MFloat (Some x_mean)),
               (''y_max'', MFloat (Some y_max)),
               (''y_min'', MFloat (Some y_min)),
               (''y_mean'', MFloat (Some y_mean)),
               (''summary'', MStr (fstring ev
                  ''Prey: {:.2f}-{:.2f} (avg {:.2f}), Predator: {:.2f}-{:.2f} (avg {:.2f})''
                  [Some x_min, Some x_max, Some x_mean, Some y_min, Some y_max, Some y_mean]))]))))))))))"

text \<open>models/logistic.py. A carrying capacity \<open>K = 0\<close> makes the right-hand side divide by
  zero, which numpy answers with an infinity or NaN inside the integrator; the model's
  right-hand side is exact only for \<open>K \<noteq> 0\<close>.\<close>

definition logistic_rhs :: "real \<Rightarrow> real \<Rightarrow> rhs" where
  "logistic_rhs r K t y =
     (case y of
        P # _ \<Rightarrow> Inr [r * P * (1 - P / K)]
      | [] \<Rightarrow> Inl IndexError)"

definition simulate_logistic ::
  "env \<Rightarrow> real dict \<Rightarrow> real dict \<Rightarrow> real \<times> real \<Rightarrow> int \<Rightarrow> ode_method \<Rightarrow> py_error + solver_result" where
  "simulate_logistic ev pars y0 tspan nsteps meth =
     (let r = dict_get pars ''r'' 0.5;
          K = dict_get pars ''K'' 100.0;
          P0 = dict_get y0 ''P'' 10.0
      in bnd (integrate ev (logistic_rhs r K) tspan [P0] meth nsteps) (\<lambda>sol.
         bnd (arr_get (sol_y sol) 0) (\<lambda>P_vals.
         bnd (arr_get P_vals 0) (\<lambda>P_initial.
         bnd (arr_last P_vals) (\<lambda>P_final.
         bnd (arr_max P_vals) (\<lambda>P_max.
         bnd (arr_argmin (map (\<lambda>P. \<bar>P - K * 0.5\<bar>) P_vals)) (\<lambda>idx_halfway.
         bnd (arr_get (sol_t sol) idx_halfway) (\<lambda>t_halfway.
         bnd (arr_argmin (map (\<lambda>P. \<bar>P - K * 0.9\<bar>) P_vals)) (\<lambda>idx_ninety.
         bnd (arr_get (sol_t sol) idx_ninety) (\<lambda>t_ninety.
         Inr (sol_t sol, as_floats (sol_y sol),
              [(''P_initial'', MFloat (Some P_initial)),
               (''P_final'', MFloat (Some P_final)),
               (''P_max'', MFloat (Some P_max)),
               (''K'', MFloat (Some K)),
               (''t_halfway'', MFloat (Some t_halfway)),
               (''t_ninety'', MFloat (Some t_ninety)),
               (''summary'', MStr (fstring ev
                  ''Population grows from {:.2f} to {:.2f} (K={:.2f}), reaching 90% at t ~ {:.2f}''
                  [Some P_initial, Some P_final, Some K, Some t_ninety]))])))))))))))"

text \<open>models/projectile.py\<close>

definition projectile_rhs :: "real \<Rightarrow> rhs" where
  "projectile_rhs g t y =
     (case y of
        [x, y_pos, vx, vy] \<Rightarrow> Inr [vx, vy, 0, - g]
      | _ \<Rightarrow> Inl ValueError)"

text \<open>\<^verbatim>\<open>np.deg2rad\<close>\<close>

definition np_deg2rad :: "real \<Rightarrow> real" where
  "np_deg2rad d = d * (pi / 180)"

text \<open>The initial state vector \<^verbatim>\<open>y0_vec\<close>: a velocity component is taken from the caller
  when it is present and not zero, and computed from \<open>v0\<close> and the launch angle otherwise.\<close>

definition projectile_y0_vec :: "real dict \<Rightarrow> real dict \<Rightarrow> real list" where
  "projectile_y0_vec pars y0 =
     (let v0 = dict_get pars ''v0'' 20.0;
          angle_deg = dict_get pars ''angle'' 45.0;
          angle_rad = np_deg2rad angle_deg;
          vx0_calc = v0 * cos angle_rad;
          vy0_calc = v0 * sin angle_rad;
          x0 = dict_get y0 ''x'' 0.0;
          y0_val = dict_get y0 ''y'' 0.0;
          vx0 = (case map_of y0 ''vx'' of
                   Some v \<Rightarrow> if v \<noteq> 0 then v else vx0_calc
                 | None \<Rightarrow> vx0_calc);
          vy0 = (case map_of y0 ''vy'' of
                   Some v \<Rightarrow> if v \<noteq> 0 then v else vy0_calc
                 | None \<Rightarrow> vy0_calc)
      in [x0, y0_val, vx0, vy0])"

text \<open>
  The landing index: \<^verbatim>\<open>landing_idx = len(y_vals) - 1\<close>, then for \<open>i\<close> from 1 to the end,
  \<^verbatim>\<open>if y_vals[i] < initial_height and y_vals[i-1] >= initial_height: landing_idx = i\<close>.
  It is computed after \<^verbatim>\<open>y_vals.max()\<close>, which has raised on an empty row.
\<close>

definition landing_index :: "real \<Rightarrow> real list \<Rightarrow> nat" where
  "landing_index initial_height y_vals =
     fold (\<lambda>i landing_idx.
             if y_vals ! i < initial_height \<and> y_vals ! (i - 1) \<ge> initial_height then i
             else landing_idx)
       [1 ..< length y_vals] (length y_vals - 1)"

text \<open>\<^verbatim>\<open>np.sqrt(vx_vals**2 + vy_vals**2)\<close>\<close>

definition v_total :: "real list \<Rightarrow> real list \<Rightarrow> real list" where
  "v_total vx_vals vy_vals = map2 (\<lambda>vx vy. sqrt (vx\<^sup>2 + vy\<^sup>2)) vx_vals vy_vals"

definition simulate_projectile ::
  "env \<Rightarrow> real dict \<Rightarrow> real dict \<Rightarrow> real \<times> real \<Rightarrow> int \<Rightarrow> ode_method \<Rightarrow> py_error + solver_result" where
  "simulate_projectile ev pars y0 tspan nsteps meth =
     (let g = dict_get pars ''g'' 9.81;
          v0 = dict_get pars ''v0'' 20.0;
          angle_deg = dict_get pars ''angle'' 45.0;
          y0_val = dict_get y0 ''y'' 0.0
      in bnd (integrate ev (projectile_rhs g) tspan (projectile_y0_vec pars y0) meth nsteps) (\<lambda>sol.
         bnd (arr_get (sol_y sol) 0) (\<lambda>x_vals.
         bnd (arr_get (sol_y sol) 1) (\<lambda>y_vals.
         bnd (arr_get (sol_y sol) 2) (\<lambda>vx_vals.
         bnd (arr_get (sol_y sol) 3) (\<lambda>vy_vals.
         bnd (arr_max y_vals) (\<lambda>y_max.
         bnd (arr_argmax y_vals) (\<lambda>k.
         bnd (arr_get (sol_t sol) k) (\<lambda>t_max_height.
         (let landing_idx = landing_index y0_val y_vals
          in bnd (arr_get x_vals landing_idx) (\<lambda>range_val.
             bnd (arr_get (sol_t sol) landing_idx) (\<lambda>t_landing.
             bnd (arr_max (v_total vx_vals vy_vals)) (\<lambda>v_max.
             bnd (arr_get (v_total vx_vals vy_vals) landing_idx) (\<lambda>v_final.
             Inr (sol_t sol, as_floats (sol_y sol),
                  [(''max_height'', MFloat (Some y_max)),
                   (''t_max_height'', MFloat (Some t_max_height)),
                   (''range'', MFloat (Some range_val)),
                   (''t_landing'', MFloat (Some t_landing)),
                   (''v_initial'', MFloat (Some v0)),
                   (''v_final'', MFloat (Some v_final)),
                   (''v_max'', MFloat (Some v_max)),
                   (''angle_deg'', MFloat (Some angle_deg)),
                   (''summary'', MStr (fstring ev
                      ''Projectile reaches max height {:.2f}m at t ~ {:.2f}s, lands at x={:.2f}m (t ~ {:.2f}s)''
                      [Some y_max, Some t_max_height, Some range_val, Some t_landing]))])))))))))))))))"

section \<open>server.py\<close>

subsection \<open>The solver registry\<close>

type_synonym solver =
  "env \<Rightarrow> real dict \<Rightarrow> real dict \<Rightarrow> real \<times> real \<Rightarrow> int \<Rightarrow> ode_method \<Rightarrow> rng
     \<Rightarrow> (py_error + solver_result) \<times> rng"

text \<open>A solver over the integrator neither reads nor changes the random state.\<close>

definition ode_solver ::
  "(env \<Rightarrow> real dict \<Rightarrow> real dict \<Rightarrow> real \<times> real \<Rightarrow> int \<Rightarrow> ode_method \<Rightarrow> py_error + solver_result)
     \<Rightarrow> solver" where
  "ode_solver f ev pars y0 tspan nsteps meth g = (f ev pars y0 tspan nsteps meth, g)"

definition SOLVERS :: "((domain \<times> model_type) \<times> solver) list" where
  "SOLVERS =
     [((Epidemiology, SIR), ode_solver simulate_sir),
      ((Epidemiology, LotkaVolterra), ode_solver simulate_lotka_volterra),
      ((Epidemiology, Logistic), ode_solver simulate_logistic),
      ((Physics, Projectile), ode_solver simulate_projectile),
      ((Finance, MonteCarlo), simulate_monte_carlo)]"

subsection \<open>Artifacts\<close>

text \<open>\<^verbatim>\<open>Y[:, i]\<close>: the column at time index \<open>i\<close>, when every row has one.\<close>

definition column_at :: "'a list list \<Rightarrow> nat \<Rightarrow> 'a list option" where
  "column_at Y i = (if list_all (\<lambda>row. i < length row) Y then Some (map (\<lambda>row. row ! i) Y) else None)"

text \<open>The rows \<^verbatim>\<open>[t[i], *Y[:, i]]\<close> that \<^verbatim>\<open>write_csv\<close> can build, in order, up to the first
  time index without a column.\<close>

fun csv_rows :: "real list \<Rightarrow> flt list list \<Rightarrow> nat list \<Rightarrow> flt list list" where
  "csv_rows t Y [] = []"
| "csv_rows t Y (i # rest) =
     (case column_at Y i of
        None \<Rightarrow> []
      | Some col \<Rightarrow> (Some (t ! i) # col) # csv_rows t Y rest)"

text \<open>
  \<^verbatim>\<open>write_csv\<close> opens the file and writes the header and the rows; the file system may
  refuse at any point, and a missing column raises IndexError once the rows before it are
  written. \<^verbatim>\<open>write_plot\<close> draws one curve per header from the row of the same position
  (IndexError when there are more headers than rows) and saves the figure. The caller
  only learns whether a writer returned its path or raised.
\<close>

definition write_csv :: "env \<Rightarrow> real list \<Rightarrow> flt list list \<Rightarrow> string list \<Rightarrow> string \<Rightarrow> py_error + string" where
  "write_csv ev t Y headers run_id =
     (let csv_path = out_dir ev @ ''/'' @ run_id @ ''.csv'';
          rows = csv_rows t Y [0 ..< length t]
      in case csv_file ev csv_path (''t'' # headers) rows of
           Some e \<Rightarrow> Inl e
         | None \<Rightarrow> if length rows < length t then Inl IndexError else Inr csv_path)"

definition write_plot :: "env \<Rightarrow> real list \<Rightarrow> flt list list \<Rightarrow> string list \<Rightarrow> string \<Rightarrow> py_error + string" where
  "write_plot ev t Y headers run_id =
     (let png_path = out_dir ev @ ''/'' @ run_id @ ''.png''
      in if length Y < length headers then Inl IndexError
         else case png_file ev png_path headers t Y of
                Some e \<Rightarrow> Inl e
              | None \<Rightarrow> Inr png_path)"

text \<open>The artifact block of \<^verbatim>\<open>simulate_model\<close>: both writers inside one \<^verbatim>\<open>try\<close>; any
  exception is logged and leaves \<^verbatim>\<open>artifacts = []\<close>.\<close>

definition save_artifacts_block ::
  "env \<Rightarrow> bool \<Rightarrow> real list \<Rightarrow> flt list list \<Rightarrow> string list \<Rightarrow> string \<Rightarrow> artifact list" where
  "save_artifacts_block ev wanted t Y headers run_id =
     (if wanted then
        (case write_csv ev t Y headers run_id of
           Inl e \<Rightarrow> []
         | Inr csv_path \<Rightarrow>
             (case write_plot ev t Y headers run_id of
                Inl e \<Rightarrow> []
              | Inr png_path \<Rightarrow>
                  [\<lparr>kind = Csv, path = csv_path, sha256 = None\<rparr>,
                   \<lparr>kind = Plot, path = png_path, sha256 = None\<rparr>]))
      else [])"

subsection \<open>Data points and metrics\<close>

text \<open>\<^verbatim>\<open>point[header] = value\<close> on a dictionary.\<close>

fun dict_set :: "'v dict \<Rightarrow> string \<Rightarrow> 'v \<Rightarrow> 'v dict" where
  "dict_set [] k v = [(k, v)]"
| "dict_set ((k', v') # d) k v = (if k' = k then (k, v) # d else (k', v') # dict_set d k v)"

text \<open>\<^verbatim>\<open>for idx, header in enumerate(headers): point[header] = float(Y[idx, i])\<close>\<close>

fun fill_point :: "flt list list \<Rightarrow> nat \<Rightarrow> nat \<Rightarrow> string list \<Rightarrow> flt dict \<Rightarrow> py_error + flt dict" where
  "fill_point Y i idx [] point = Inr point"
| "fill_point Y i idx (header # rest) point =
     (if idx < length Y \<and> i < length (Y ! idx)
      then fill_point Y i (Suc idx) rest (dict_set point header (Y ! idx ! i))
      else Inl IndexError)"

text \<open>\<^verbatim>\<open>for i in range(len(t))\<close> inside the \<^verbatim>\<open>try\<close>: an exception ends the loop and is
  logged, and \<^verbatim>\<open>data_points\<close> keeps the points appended so far.\<close>

fun data_loop :: "real list \<Rightarrow> flt list list \<Rightarrow> string list \<Rightarrow> nat list \<Rightarrow> flt dict list \<Rightarrow> flt dict list" where
  "data_loop t Y headers [] data_points = data_points"
| "data_loop t Y headers (i # rest) data_points =
     (case fill_point Y i 0 headers [(''t'', Some (t ! i))] of
        Inl e \<Rightarrow> data_points
      | Inr point \<Rightarrow> data_loop t Y headers rest (data_points @ [point]))"

text \<open>\<^verbatim>\<open>float(v)\<close> of a metrics value: a dictionary is a TypeError, a string is parsed.\<close>

definition py_float :: "env \<Rightarrow> mval \<Rightarrow> py_error + flt" where
  "py_float ev v =
     (case v of
        MFloat x \<Rightarrow> Inr x
      | MInt n \<Rightarrow> Inr (Some (real_of_int n))
      | MStr s \<Rightarrow> (case float_of_str ev s of None \<Rightarrow> Inl ValueError | Some x \<Rightarrow> Inr x)
      | MDict d \<Rightarrow> Inl TypeError)"

text \<open>\<^verbatim>\<open>{k: float(v) for k, v in metrics.items() if k != "summary"}\<close>\<close>

fun float_items :: "env \<Rightarrow> metrics_bundle \<Rightarrow> py_error + flt dict" where
  "float_items ev [] = Inr []"
| "float_items ev ((k, v) # rest) =
     (if k \<noteq> ''summary''
      then bnd (py_float ev v) (\<lambda>x. bnd (float_items ev rest) (\<lambda>r. Inr ((k, x) # r)))
      else float_items ev rest)"

text \<open>\<^verbatim>\<open>metrics.get("summary", "")\<close>, which the output model accepts as a string only.\<close>

definition summary_of :: "metrics_bundle \<Rightarrow> py_error + string" where
  "summary_of m =
     (case map_of m ''summary'' of
        None \<Rightarrow> Inr ''''
      | Some (MStr s) \<Rightarrow> Inr s
      | Some _ \<Rightarrow> Inl ValidationError)"

subsection \<open>simulate\_model\<close>

definition domain_str :: "domain \<Rightarrow> string" where
  "domain_str d =
     (case d of Epidemiology \<Rightarrow> ''epidemiology'' | Physics \<Rightarrow> ''physics''
      | Finance \<Rightarrow> ''finance'' | Custom \<Rightarrow> ''custom'')"

definition model_type_str :: "model_type \<Rightarrow> string" where
  "model_type_str m =
     (case m of SIR \<Rightarrow> ''SIR'' | LotkaVolterra \<Rightarrow> ''LotkaVolterra'' | Logistic \<Rightarrow> ''Logistic''
      | Projectile \<Rightarrow> ''Projectile'' | MonteCarlo \<Rightarrow> ''MonteCarlo'')"

definition model_type_lower :: "model_type \<Rightarrow> string" where
  "model_type_lower m =
     (case m of SIR \<Rightarrow> ''sir'' | LotkaVolterra \<Rightarrow> ''lotkavolterra'' | Logistic \<Rightarrow> ''logistic''
      | Projectile \<Rightarrow> ''projectile'' | MonteCarlo \<Rightarrow> ''montecarlo'')"

text \<open>\<^verbatim>\<open>type(e).__name__\<close> and \<^verbatim>\<open>str(e)\<close>\<close>

definition exc_name :: "py_error \<Rightarrow> string" where
  "exc_name e =
     (case e of ValueError \<Rightarrow> ''ValueError'' | TypeError \<Rightarrow> ''TypeError''
      | IndexError \<Rightarrow> ''IndexError'' | ZeroDivisionError \<Rightarrow> ''ZeroDivisionError''
      | RuntimeError m \<Rightarrow> ''RuntimeError'' | ValidationError \<Rightarrow> ''ValidationError''
      | OtherError n \<Rightarrow> n)"

definition exc_str :: "env \<Rightarrow> py_error \<Rightarrow> string" where
  "exc_str ev e = (case e of RuntimeError m \<Rightarrow> m | _ \<Rightarrow> exc_text ev e)"

definition make_run_id :: "env \<Rightarrow> simulate_model_input \<Rightarrow> string" where
  "make_run_id ev spec = model_type_lower (model_type spec) @ ''_'' @ utc_stamp ev @ ''_'' @ uuid_hex8 ev"

text \<open>The optional JSON schema pass: skipped when no schema was loaded.\<close>

definition schema_pass :: "env \<Rightarrow> simulate_model_input \<Rightarrow> schema_verdict" where
  "schema_pass ev spec = (case input_schema ev of None \<Rightarrow> SchemaAccepts | Some validate \<Rightarrow> validate spec)"

text \<open>Preview mode: \<^verbatim>\<open>actual_steps = min(spec.time_span.steps, 100)\<close>.\<close>

definition actual_steps :: "time_span \<Rightarrow> int" where
  "actual_steps ts = (if preview_mode ts then min (steps ts) 100 else steps ts)"

text \<open>
  What \<^verbatim>\<open>simulate_model\<close> does once the solver has returned \<open>(t, Y, metrics)\<close>: headers
  from the keys of \<^verbatim>\<open>initial_conditions\<close>, artifacts, data points, and the output model.
  The comprehension over the metrics is an argument of the constructor and is outside
  every \<^verbatim>\<open>try\<close>: an exception in it leaves \<^verbatim>\<open>simulate_model\<close>.
\<close>

definition shape_output ::
  "env \<Rightarrow> simulate_model_input \<Rightarrow> real list \<Rightarrow> flt list list \<Rightarrow> metrics_bundle
     \<Rightarrow> py_error + call_tool_result" where
  "shape_output ev spec t Y m =
     (let headers = map fst (initial_conditions spec);
          artifacts = save_artifacts_block ev (save_artifacts spec) t Y headers (make_run_id ev spec);
          data_points = (if return_data spec
                         then Some (data_loop t Y headers [0 ..< length t] [])
                         else None)
      in bnd (float_items ev m) (\<lambda>numeric.
         bnd (summary_of m) (\<lambda>summary.
         Inr (ToolResult
           \<lparr>status = StatusSuccess,
            message = ''Simulation completed'',
            summary = Some summary,
            artifacts = artifacts,
            metrics = numeric,
            columns = Some (''t'' # headers),
            data = data_points\<rparr>))))"

definition simulate_model ::
  "env \<Rightarrow> simulate_model_input \<Rightarrow> rng \<Rightarrow> (py_error + call_tool_result) \<times> rng" where
  "simulate_model ev spec g =
     (case schema_pass ev spec of
        SchemaRejects msg \<Rightarrow> (Inr (ToolError (''JSON schema validation failed: '' @ msg)), g)
      | SchemaRaises e \<Rightarrow> (Inl e, g)
      | SchemaAccepts \<Rightarrow>
          (case map_of SOLVERS (domain spec, model_type spec) of
             None \<Rightarrow>
               (Inr (ToolError (''No solver registered for domain='' @ domain_str (domain spec)
                                  @ '', model_type='' @ model_type_str (model_type spec))), g)
           | Some solver \<Rightarrow>
               (case solver ev (parameters spec) (initial_conditions spec)
                       (start (time_span spec), finish (time_span spec))
                       (actual_steps (time_span spec)) (integration_method spec) g of
                  (Inl e, g1) \<Rightarrow>
                    (Inr (ToolError (''Solver error: '' @ exc_name e @ '': '' @ exc_str ev e)), g1)
                | (Inr (t, Y, m), g1) \<Rightarrow> (shape_output ev spec t Y m, g1))))"

section \<open>Specification vocabulary and a concrete integrator\<close>

text \<open>
  The specification describes the projectile's landing by a time index at which the
  height passes from at or above the initial height to below it. This is that sentence,
  to be compared with the loop in \<open>landing_index\<close>.
\<close>

definition crossing :: "real \<Rightarrow> real list \<Rightarrow> nat \<Rightarrow> bool" where
  "crossing h ys i \<longleftrightarrow> 1 \<le> i \<and> i < length ys \<and> ys ! i < h \<and> ys ! (i - 1) \<ge> h"


text \<open>
  What the solvers rely on from \<^verbatim>\<open>solve_ivp\<close> when it is given \<^verbatim>\<open>t_eval\<close>: a successful
  solution is reported at exactly the requested times.
\<close>

definition integrator_returns_grid :: "env \<Rightarrow> bool" where
  "integrator_returns_grid ev \<longleftrightarrow>
     (\<forall>f tspan y0_vec meth t_eval sol.
        solve_ivp ev f tspan y0_vec meth t_eval = Inr sol \<and> sol_success sol \<longrightarrow> sol_t sol = t_eval)"

text \<open>
  The integrator is outside the repository. To run the solvers on examples, the theorems
  below are instantiated with explicit Euler steps from one evaluation time to the next,
  starting from the initial state at the start of the span. It stands in for scipy's
  adaptive scheme in the worked runs only: its values away from the initial time differ
  from scipy's in their digits, and no general theorem depends on it.
\<close>

fun euler_states :: "rhs \<Rightarrow> real \<Rightarrow> real list \<Rightarrow> real list \<Rightarrow> real list list" where
  "euler_states f t y [] = []"
| "euler_states f t y (t' # ts) =
     (case f t y of
        Inl e \<Rightarrow> []
      | Inr dy \<Rightarrow> map2 (\<lambda>v d. v + (t' - t) * d) y dy
                  # euler_states f t' (map2 (\<lambda>v d. v + (t' - t) * d) y dy) ts)"

definition euler_ivp ::
  "rhs \<Rightarrow> real \<times> real \<Rightarrow> real list \<Rightarrow> ode_method \<Rightarrow> real list \<Rightarrow> py_error + ode_result" where
  "euler_ivp f tspan y0_vec meth t_eval =
     Inr \<lparr>sol_success = (length (euler_states f (fst tspan) y0_vec t_eval) = length t_eval),
          sol_message = ''the right-hand side raised'',
          sol_t = t_eval,
          sol_y = map (\<lambda>k. map (\<lambda>s. s ! k) (euler_states f (fst tspan) y0_vec t_eval))
                    [0 ..< length y0_vec]\<rparr>"



section \<open>Properties\<close>

subsection \<open>Results and the registry\<close>

lemma bnd_Inl [simp]: "bnd (Inl e) f = Inl e"
  by (simp add: bnd_def)

lemma bnd_Inr [simp]: "bnd (Inr x) f = f x"
  by (simp add: bnd_def)

lemma bnd_eq_Inr: "bnd r f = Inr y \<longleftrightarrow> (\<exists>x. r = Inr x \<and> f x = Inr y)"
  by (cases r) simp_all

lemma arr_get_Inr: "arr_get xs i = Inr v \<longleftrightarrow> i < length xs \<and> xs ! i = v"
  by (auto simp: arr_get_def)

lemma integrate_Inr:
  "integrate ev f tspan y0v meth n = Inr sol \<longleftrightarrow>
     (\<exists>te. np_linspace (fst tspan) (snd tspan) n = Inr te
         \<and> solve_ivp ev f tspan y0v meth te = Inr sol \<and> sol_success sol)"
  by (auto simp: integrate_def bnd_eq_Inr split: if_splits)

lemma registry_lookup:
  "map_of SOLVERS key =
     (if key = (Epidemiology, SIR) then Some (ode_solver simulate_sir)
      else if key = (Epidemiology, LotkaVolterra) then Some (ode_solver simulate_lotka_volterra)
      else if key = (Epidemiology, Logistic) then Some (ode_solver simulate_logistic)
      else if key = (Physics, Projectile) then Some (ode_solver simulate_projectile)
      else if key = (Finance, MonteCarlo) then Some simulate_monte_carlo
      else None)"
  by (simp add: SOLVERS_def)

lemma registered_solver:
  assumes "map_of SOLVERS key = Some solver"
  shows "solver = simulate_monte_carlo \<and> key = (Finance, MonteCarlo)
       \<or> key \<noteq> (Finance, MonteCarlo) \<and>
         (\<exists>f. solver = ode_solver f \<and>
              (f = simulate_sir \<or> f = simulate_lotka_volterra \<or> f = simulate_logistic
                \<or> f = simulate_projectile))"
  using assms by (auto simp: registry_lookup split: if_splits)

text \<open>Past the schema pass and the registry, \<open>simulate_model\<close> shapes what the solver
  returned for the capped step count.\<close>

lemma simulate_model_shapes:
  assumes "schema_pass ev spec = SchemaAccepts"
    and "map_of SOLVERS (domain spec, model_type spec) = Some solver"
    and "solver ev (parameters spec) (initial_conditions spec)
           (start (time_span spec), finish (time_span spec))
           (actual_steps (time_span spec)) (integration_method spec) g = (Inr (t, Y, m), g')"
  shows "simulate_model ev spec g = (shape_output ev spec t Y m, g')"
  using assms by (simp add: simulate_model_def)

lemma shape_output_type_error:
  "float_items ev m = Inl e \<Longrightarrow> shape_output ev spec t Y m = Inl e"
  by (simp add: shape_output_def Let_def)

text \<open>Every success result carries the caller's keys, in the caller's order, as its
  columns after \<open>t\<close>.\<close>

lemma columns_are_request_keys:
  assumes "fst (simulate_model ev spec g) = Inr (ToolResult out)"
  shows "columns out = Some (''t'' # map fst (initial_conditions spec))"
  using assms
  unfolding simulate_model_def shape_output_def Let_def
  by (auto simp: bnd_eq_Inr split: schema_verdict.splits option.splits prod.splits sum.splits)

lemma artifacts_empty_on_failure:
  assumes "write_csv ev t Y headers run_id = Inl e1 \<or> write_plot ev t Y headers run_id = Inl e2"
  shows "save_artifacts_block ev wanted t Y headers run_id = []"
  using assms by (auto simp: save_artifacts_block_def split: sum.splits)

subsection \<open>The evaluation grid\<close>

lemma linspace_Inr:
  "0 \<le> n \<Longrightarrow> \<exists>t. np_linspace a b n = Inr t \<and> length t = nat n"
  by (auto simp: np_linspace_def)

lemma linspace_shape:
  assumes "2 \<le> n" and "np_linspace a b n = Inr t"
  shows "int (length t) = n \<and> hd t = a \<and> last t = b"
proof -
  from assms have t: "t = map (\<lambda>i. a + real i * ((b - a) / real_of_int (n - 1))) [0 ..< nat n - 1] @ [b]"
    by (simp add: np_linspace_def split: if_splits)
  from assms(1) have "[0 ..< nat n - 1] = 0 # [1 ..< nat n - 1]"
    by (simp add: upt_conv_Cons)
  with assms(1) show ?thesis unfolding t by simp
qed

lemma actual_steps_valid: "min_steps (steps ts) = Inr (steps ts) \<Longrightarrow> 2 \<le> actual_steps ts"
  by (auto simp: min_steps_def actual_steps_def split: if_splits)

lemma linspace_0_1_2: "np_linspace 0 1 2 = Inr [0, 1]"
  by (simp add: np_linspace_def)

lemma linspace_0_4_5: "np_linspace 0 4 5 = Inr [0, 1, 2, 3, 4]"
  by (simp add: np_linspace_def upt_rec)

subsection \<open>The Monte Carlo solver\<close>

lemma those_replicate: "those (replicate n (Some x)) = Some (replicate n x)"
  by (induction n) simp_all

lemma np_mean_replicate: "0 < n \<Longrightarrow> np_mean (replicate n (Some x)) = Some x"
  by (simp add: np_mean_def nan_lift_def those_replicate mean_def sum_list_replicate)

lemma prob_profit_none: "prob_profit_pct (replicate n (Some x)) x = 0"
  by (simp add: prob_profit_pct_def fgt_def)

lemma normal_draws:
  "np_random_normal 0 (Some s) n g = (map (\<lambda>i. Some (s * g i)) [0 ..< n], \<lambda>i. g (i + n))"
  by (simp add: np_random_normal_def fadd_def fmul_def lift2_def)

text \<open>With no drift and no volatility a step multiplies every path by \<open>exp 0 = 1\<close>,
  whatever finite increments were drawn.\<close>

lemma gbm_step_frozen:
  "length zs = length prev \<Longrightarrow> gbm_step 0 0 dt prev (map Some zs) = prev"
proof (induction prev arbitrary: zs)
  case Nil
  then show ?case by (simp add: gbm_step_def)
next
  case (Cons p prev)
  then obtain z zs' where zs: "zs = z # zs'" by (cases zs) auto
  with Cons have "gbm_step 0 0 dt prev (map Some zs') = prev" by simp
  then show ?case unfolding zs
    by (cases p) (simp_all add: gbm_step_def fmul_def fadd_def fexp_def lift2_def)
qed

lemma gbm_loop_frozen:
  "0 \<le> dt \<Longrightarrow> length prev = n \<Longrightarrow> fst (gbm_loop 0 0 dt n k prev g) = replicate k prev"
proof (induction k arbitrary: g)
  case 0
  then show ?case by simp
next
  case (Suc k)
  have draws: "map (\<lambda>i. Some (sqrt dt * g i)) [0 ..< n] = map Some (map (\<lambda>i. sqrt dt * g i) [0 ..< n])"
    by simp
  have step: "gbm_step 0 0 dt prev (map (\<lambda>i. Some (sqrt dt * g i)) [0 ..< n]) = prev"
    unfolding draws using Suc.prems by (intro gbm_step_frozen) simp
  from Suc.prems have sq: "np_sqrt dt = Some (sqrt dt)" by (simp add: np_sqrt_def)
  show ?case
    using Suc.IH [OF Suc.prems, of "\<lambda>i. g (i + n)"]
    by (auto simp: sq normal_draws step split: prod.splits)
qed

lemma mc_frozen:
  assumes mu: "dict_get pars ''mu'' 0.1 = 0"
    and sigma: "dict_get pars ''sigma'' 0.2 = 0"
    and paths: "0 < py_int (dict_get pars ''n_paths'' 100)"
    and seed: "map_of pars ''seed'' = Some s" "0 \<le> py_int s" "py_int s < 2 ^ 32"
    and S0: "dict_get y0 ''S'' 100 = S0" "S0 \<noteq> 0"
    and steps: "1 \<le> nsteps"
    and span: "fst tspan \<le> snd tspan"
  shows "\<exists>t m g'. simulate_monte_carlo ev pars y0 tspan nsteps meth g
             = (Inr (t, [replicate (nat nsteps) (Some S0)], m), g')
           \<and> map_of m ''prob_profit_pct'' = Some (MFloat (Some 0))"
proof -
  define N where "N = nat (py_int (dict_get pars ''n_paths'' 100))"
  define dt where "dt = (if nsteps > 1 then (snd tspan - fst tspan) / real_of_int (nsteps - 1) else 0)"
  define g0 where "g0 = seeded_stream ev (nat (py_int s))"
  define col where "col = replicate N (Some S0)"
  have N: "0 < N" using paths by (simp add: N_def)
  have dt: "0 \<le> dt" using span by (simp add: dt_def)
  obtain t where t: "np_linspace (fst tspan) (snd tspan) nsteps = Inr t"
    using linspace_Inr [of nsteps] steps by fastforce
  obtain cols g1 where loop: "gbm_loop 0 0 dt N (nat nsteps - 1) col g0 = (cols, g1)"
    by (cases "gbm_loop 0 0 dt N (nat nsteps - 1) col g0")
  have cols: "cols = replicate (nat nsteps - 1) col"
    using gbm_loop_frozen [OF dt, of col N "nat nsteps - 1" g0] loop by (simp add: col_def)
  have all: "col # cols = replicate (nat nsteps) col"
    using steps unfolding cols by (cases "nat nsteps") simp_all
  have means: "map np_mean (col # cols) = replicate (nat nsteps) (Some S0)"
    using N by (simp only: all) (simp add: col_def np_mean_replicate)
  have lst: "last (col # cols) = col"
    using steps by (simp only: all) (cases "nat nsteps", simp_all)
  have prob: "map_of (mc_metrics ev 0 0 (py_int (dict_get pars ''n_paths'' 100)) S0 (col # cols))
                ''prob_profit_pct'' = Some (MFloat (Some 0))"
    unfolding mc_metrics_def Let_def lst by (simp add: col_def prob_profit_none)
  have "simulate_monte_carlo ev pars y0 tspan nsteps meth g
          = (Inr (t, [replicate (nat nsteps) (Some S0)],
                  mc_metrics ev 0 0 (py_int (dict_get pars ''n_paths'' 100)) S0 (col # cols)), g1)"
    using mu sigma paths seed S0 steps t loop means
    unfolding simulate_monte_carlo_def Let_def
    by (simp add: np_random_seed_def dt_def [symmetric] g0_def [symmetric] N_def [symmetric]
        col_def [symmetric])
  with prob show ?thesis by blast
qed

text \<open>On a reversed span the time step is negative, its square root is NaN, and so is
  every time point after the first, zero volatility or not.\<close>

lemma gbm_step_nan:
  "length prev = n \<Longrightarrow> gbm_step mu sigma dt prev (replicate n None) = replicate n None"
proof (induction prev arbitrary: n)
  case Nil
  then show ?case by (simp add: gbm_step_def)
next
  case (Cons p prev)
  then obtain k where "n = Suc k" "length prev = k" by (cases n) auto
  with Cons.IH [of k] show ?case
    by (simp add: gbm_step_def fmul_def fadd_def fexp_def lift2_def split: option.splits)
qed

lemma monte_carlo_reversed_span_nan:
  assumes "map_of pars ''seed'' = None \<or>
           (\<exists>s. map_of pars ''seed'' = Some s \<and> 0 \<le> py_int s \<and> py_int s < 2 ^ 32)"
    and "0 < py_int (dict_get pars ''n_paths'' 100)"
    and "dict_get y0 ''S'' 100 \<noteq> 0"
    and "snd tspan < fst tspan"
  shows "\<exists>t m g'. simulate_monte_carlo ev pars y0 tspan 2 meth g
            = (Inr (t, [[Some (dict_get y0 ''S'' 100), None]], m), g')"
proof -
  define N where "N = nat (py_int (dict_get pars ''n_paths'' 100))"
  have N: "0 < N" using assms(2) by (simp add: N_def)
  have nan: "np_sqrt (snd tspan - fst tspan) = None" using assms(4) by (simp add: np_sqrt_def)
  have col: "gbm_step mu sigma dt (replicate N (Some S)) (replicate N None) = replicate N None"
    for mu sigma dt S
    by (rule gbm_step_nan) simp
  have mean_nan: "np_mean (replicate N None) = None"
    using N by (cases N) (simp_all add: np_mean_def nan_lift_def)
  have mean_ok: "np_mean (replicate N (Some S)) = Some S" for S
    using N by (rule np_mean_replicate)
  show ?thesis
    using assms N nan
    unfolding simulate_monte_carlo_def Let_def
    by (auto simp: np_linspace_def N_def [symmetric] col mean_nan mean_ok np_random_normal_def
        np_random_seed_def fmul_def fadd_def lift2_def map_replicate_const split: prod.splits)
qed

text \<open>Whenever the Monte Carlo solver returns, its time points are the grid and its
  bundle carries the percentile table, which \<^verbatim>\<open>float\<close> refuses.\<close>

lemma float_items_mc: "float_items ev (mc_metrics ev mu sigma n S0 paths) = Inl TypeError"
  by (simp add: mc_metrics_def py_float_def Let_def)

lemma mc_result_shape:
  assumes "simulate_monte_carlo ev pars y0 tspan nsteps meth g = (Inr (t, Y, m), g')"
  shows "np_linspace (fst tspan) (snd tspan) nsteps = Inr t \<and> float_items ev m = Inl TypeError"
  using assms unfolding simulate_monte_carlo_def Let_def
  by (auto simp: float_items_mc split: sum.splits option.splits if_splits prod.splits)

lemma mc_succeeds:
  assumes seed: "map_of pars ''seed'' = None \<or>
                 (\<exists>s. map_of pars ''seed'' = Some s \<and> 0 \<le> py_int s \<and> py_int s < 2 ^ 32)"
    and paths: "0 < py_int (dict_get pars ''n_paths'' 100)"
    and S0: "dict_get y0 ''S'' 100 \<noteq> 0"
    and steps: "1 \<le> nsteps"
  shows "\<exists>t Y m g'. simulate_monte_carlo ev pars y0 tspan nsteps meth g = (Inr (t, Y, m), g')"
proof -
  obtain t where t: "np_linspace (fst tspan) (snd tspan) nsteps = Inr t"
    using linspace_Inr [of nsteps] steps by fastforce
  from seed paths S0 steps t show ?thesis
    unfolding simulate_monte_carlo_def Let_def
    by (auto simp: np_random_seed_def split: prod.splits)
qed

subsection \<open>The solvers over the integrator\<close>

lemma ode_results:
  assumes "f = simulate_sir \<or> f = simulate_lotka_volterra \<or> f = simulate_logistic \<or> f = simulate_projectile"
    and "f ev pars y0 tspan nsteps meth = Inr (t, Y, m)"
  shows "\<exists>rhs y0_vec sol. integrate ev rhs tspan y0_vec meth nsteps = Inr sol
           \<and> t = sol_t sol \<and> Y = as_floats (sol_y sol)"
  using assms
  unfolding simulate_sir_def simulate_lotka_volterra_def simulate_logistic_def
    simulate_projectile_def Let_def
  by (elim disjE) (auto simp: bnd_eq_Inr)

text \<open>Their bundles hold floats and the summary string only, so the numeric view exists
  and is the bundle without its summary.\<close>

lemma ode_metrics_convert:
  assumes "f = simulate_sir \<or> f = simulate_lotka_volterra \<or> f = simulate_logistic \<or> f = simulate_projectile"
    and "f ev pars y0 tspan nsteps meth = Inr (t, Y, m)"
  shows "\<exists>numeric s. float_items ev m = Inr numeric \<and> summary_of m = Inr s
           \<and> map fst numeric = filter (\<lambda>k. k \<noteq> ''summary'') (map fst m)"
  using assms
  unfolding simulate_sir_def simulate_lotka_volterra_def simulate_logistic_def
    simulate_projectile_def Let_def
  by (elim disjE) (auto simp: bnd_eq_Inr py_float_def summary_of_def)

lemma as_floats_inj: "as_floats A = as_floats B \<Longrightarrow> A = B"
  unfolding as_floats_def by (simp add: inj_map_eq_map)

text \<open>The loop of \<open>landing_index\<close> keeps the last index that satisfies its test.\<close>

lemma fold_keeps_last:
  "fold (\<lambda>i l. if P i then i else l) [a ..< b] l0 = r \<Longrightarrow>
     (if \<exists>i. a \<le> i \<and> i < b \<and> P i
      then a \<le> r \<and> r < b \<and> P r \<and> (\<forall>i. a \<le> i \<and> i < b \<and> P i \<longrightarrow> i \<le> r)
      else r = l0)"
proof (induction b arbitrary: r)
  case 0
  then show ?case by simp
next
  case (Suc b)
  show ?case
  proof (cases "a \<le> b")
    case False
    with Suc.prems show ?thesis by auto
  next
    case True
    then have up: "[a ..< Suc b] = [a ..< b] @ [b]" by simp
    show ?thesis
    proof (cases "P b")
      case True
      with Suc.prems up have "r = b" by simp
      with True \<open>a \<le> b\<close> show ?thesis by auto
    next
      case False
      with Suc.prems up have r: "fold (\<lambda>i l. if P i then i else l) [a ..< b] l0 = r" by simp
      have eq: "(a \<le> i \<and> i < Suc b \<and> P i) = (a \<le> i \<and> i < b \<and> P i)" for i
        using False less_Suc_eq by auto
      from Suc.IH [OF r] show ?thesis unfolding eq by (auto simp: less_Suc_eq)
    qed
  qed
qed

lemma landing_index_no_crossing:
  "\<forall>i. \<not> crossing h ys i \<Longrightarrow> landing_index h ys = length ys - 1"
  using fold_keeps_last [of "\<lambda>i. ys ! i < h \<and> ys ! (i - 1) \<ge> h" 1 "length ys" "length ys - 1", OF refl]
  unfolding landing_index_def crossing_def
  by (auto split: if_splits)

lemma landing_index_last_crossing:
  "crossing h ys i \<Longrightarrow> crossing h ys (landing_index h ys) \<and> i \<le> landing_index h ys"
  using fold_keeps_last [of "\<lambda>i. ys ! i < h \<and> ys ! (i - 1) \<ge> h" 1 "length ys" "length ys - 1", OF refl]
  unfolding landing_index_def crossing_def
  by (auto split: if_splits)

subsection \<open>Two worked runs\<close>

text \<open>An SIR run of two grid points and a projectile run of five, under the Euler
  integrator.\<close>

lemma sir_example:
  assumes "solve_ivp ev = euler_ivp"
    and "map_of y0 ''S'' = Some 0.99" "map_of y0 ''I'' = Some 0.01" "map_of y0 ''R'' = Some 0"
  shows "simulate_sir ev [] y0 (0, 1) 2 RK45
    = Inr ([0, 1],
           as_floats [[0.99, 0.98703], [0.01, 0.01197], [0, 0.001]],
           [(''I_peak'', MFloat (Some 0.01197)),
            (''t_peak'', MFloat (Some 1)),
            (''summary'', MStr (fstring ev ''Peak infection {:.4f} at t ~ {:.2f}'' [Some 0.01197, Some 1]))])"
  using assms
  by (simp add: simulate_sir_def integrate_def linspace_0_1_2 euler_ivp_def sir_rhs_def dict_get_def
      Let_def arr_get_def arr_max_def arr_argmax_def upt_rec maximum_def as_floats_def)

lemma projectile_example:
  "simulate_projectile (ev\<lparr>solve_ivp := euler_ivp\<rparr>) [(''g'', 10)] [(''vx'', 3), (''vy'', 5)] (0, 4) 5 RK45
    = Inr ([0, 1, 2, 3, 4],
           as_floats [[0, 3, 6, 9, 12], [0, 5, 0, -15, -40], [3, 3, 3, 3, 3], [5, -5, -15, -25, -35]],
           [(''max_height'', MFloat (Some 5)),
            (''t_max_height'', MFloat (Some 1)),
            (''range'', MFloat (Some 9)),
            (''t_landing'', MFloat (Some 3)),
            (''v_initial'', MFloat (Some 20)),
            (''v_final'', MFloat (Some (sqrt 634))),
            (''v_max'', MFloat (Some (sqrt 1234))),
            (''angle_deg'', MFloat (Some 45)),
            (''summary'', MStr (fstring ev
               ''Projectile reaches max height {:.2f}m at t ~ {:.2f}s, lands at x={:.2f}m (t ~ {:.2f}s)''
               [Some 5, Some 1, Some 9, Some 3]))])"
  by (simp add: simulate_projectile_def integrate_def linspace_0_4_5 euler_ivp_def projectile_y0_vec_def
      projectile_rhs_def dict_get_def Let_def arr_get_def arr_max_def arr_argmax_def upt_rec
      maximum_def landing_index_def v_total_def as_floats_def)

subsection \<open>Data points\<close>






subsection \<open>What a run depends on\<close>

text \<open>The random state is read by the Monte Carlo solver only, and by it only when no
  seed is supplied.\<close>

lemma solver_ignores_random_state:
  assumes reg: "map_of SOLVERS key = Some solver"
    and seeded: "key \<noteq> (Finance, MonteCarlo) \<or> map_of pars ''seed'' \<noteq> None"
  shows "fst (solver ev pars y0 tspan nsteps meth g1) = fst (solver ev pars y0 tspan nsteps meth g2)"
proof -
  from registered_solver [OF reg] consider
      (mc) "solver = simulate_monte_carlo" "key = (Finance, MonteCarlo)"
    | (ode) f where "solver = ode_solver f"
    by blast
  then show ?thesis
  proof cases
    case mc
    with seeded obtain s where "map_of pars ''seed'' = Some s" by auto
    then have "simulate_monte_carlo ev pars y0 tspan nsteps meth g1
                 = simulate_monte_carlo ev pars y0 tspan nsteps meth g2
             \<or> (\<exists>e. simulate_monte_carlo ev pars y0 tspan nsteps meth g1 = (Inl e, g1)
                  \<and> simulate_monte_carlo ev pars y0 tspan nsteps meth g2 = (Inl e, g2))"
      unfolding simulate_monte_carlo_def Let_def
      by (cases "np_random_seed ev (py_int s)") simp_all
    with mc show ?thesis by auto
  next
    case (ode f)
    then show ?thesis by (simp add: ode_solver_def)
  qed
qed

text \<open>A solver reaches the outside world through the integrator, the seeding and the
  formatter only.\<close>

lemma solver_same_collaborators:
  assumes reg: "map_of SOLVERS key = Some solver"
    and ivp: "solve_ivp ev1 = solve_ivp ev2"
    and sd: "seeded_stream ev1 = seeded_stream ev2"
    and fs: "fstring ev1 = fstring ev2"
  shows "solver ev1 pars y0 tspan nsteps meth g = solver ev2 pars y0 tspan nsteps meth g"
proof -
  have int: "integrate ev1 = integrate ev2"
    by (intro ext) (simp add: integrate_def ivp)
  from registered_solver [OF reg] consider
      (mc) "solver = simulate_monte_carlo"
    | (sir) "solver = ode_solver simulate_sir"
    | (lv) "solver = ode_solver simulate_lotka_volterra"
    | (logistic) "solver = ode_solver simulate_logistic"
    | (projectile) "solver = ode_solver simulate_projectile"
    by blast
  then show ?thesis
  proof cases
    case mc
    have metrics: "mc_metrics ev1 = mc_metrics ev2"
      by (intro ext) (simp add: mc_metrics_def fs)
    have seeding: "np_random_seed ev1 = np_random_seed ev2"
      by (intro ext) (simp add: np_random_seed_def sd)
    show ?thesis unfolding mc simulate_monte_carlo_def metrics seeding by (rule refl)
  next
    case sir
    show ?thesis unfolding sir ode_solver_def simulate_sir_def by (simp add: int fs)
  next
    case lv
    show ?thesis unfolding lv ode_solver_def simulate_lotka_volterra_def by (simp add: int fs)
  next
    case logistic
    show ?thesis unfolding logistic ode_solver_def simulate_logistic_def by (simp add: int fs)
  next
    case projectile
    show ?thesis unfolding projectile ode_solver_def simulate_projectile_def by (simp add: int fs)
  qed
qed

lemma float_items_same_parser:
  assumes "float_of_str ev1 = float_of_str ev2"
  shows "float_items ev1 m = float_items ev2 m"
proof -
  have "py_float ev1 = py_float ev2"
    by (intro ext) (simp add: py_float_def assms split: mval.splits)
  then show ?thesis by (induction m) auto
qed

lemma simulate_model_success:
  assumes reg: "map_of SOLVERS (domain spec, model_type spec) = Some solver"
    and ok: "fst (simulate_model ev spec g) = Inr (ToolResult out)"
  obtains t Y m numeric s where
    "fst (solver ev (parameters spec) (initial_conditions spec)
            (start (time_span spec), finish (time_span spec))
            (actual_steps (time_span spec)) (integration_method spec) g) = Inr (t, Y, m)"
    "float_items ev m = Inr numeric" "summary_of m = Inr s"
    "metrics out = numeric" "summary out = Some s"
    "columns out = Some (''t'' # map fst (initial_conditions spec))"
    "data out = (if return_data spec
                 then Some (data_loop t Y (map fst (initial_conditions spec)) [0 ..< length t] [])
                 else None)"
proof -
  obtain r g' where run: "solver ev (parameters spec) (initial_conditions spec)
            (start (time_span spec), finish (time_span spec))
            (actual_steps (time_span spec)) (integration_method spec) g = (r, g')"
    by (cases "solver ev (parameters spec) (initial_conditions spec)
            (start (time_span spec), finish (time_span spec))
            (actual_steps (time_span spec)) (integration_method spec) g")
  from ok reg run obtain t Y m where r: "r = Inr (t, Y, m)"
    and shaped: "shape_output ev spec t Y m = Inr (ToolResult out)"
    unfolding simulate_model_def
    by (cases r) (auto split: schema_verdict.splits)
  from shaped obtain numeric s where
    "float_items ev m = Inr numeric" "summary_of m = Inr s"
    "metrics out = numeric" "summary out = Some s"
    "columns out = Some (''t'' # map fst (initial_conditions spec))"
    "data out = (if return_data spec
                 then Some (data_loop t Y (map fst (initial_conditions spec)) [0 ..< length t] [])
                 else None)"
    unfolding shape_output_def Let_def by (auto simp: bnd_eq_Inr)
  with run r that show thesis by simp
qed

subsection \<open>The properties of the specification\<close>

text \<open>
  C1. For a request the solver completes, the response's metrics should be the numeric
  entries of the bundle, with the summary string and the Monte Carlo percentile table
  left out, inside a success result. The comprehension leaves out the summary only. On a
  Monte Carlo request (seed 42, ten paths, initial price 100, fifty steps over [0, 1]) it
  reaches the percentile table, \<^verbatim>\<open>float\<close> raises TypeError, and the exception leaves
  \<open>simulate_model\<close>: no response is built. (For the four other models the numeric view
  exists: \<open>ode_metrics_convert\<close>.)
\<close>

theorem monte_carlo_response_type_error:
  "fst (simulate_model (ev\<lparr>input_schema := None\<rparr>)
          \<lparr>domain = Finance, model_type = MonteCarlo,
           parameters = [(''seed'', 42), (''n_paths'', 10)],
           initial_conditions = [(''S'', 100)],
           time_span = \<lparr>start = 0, finish = 1, steps = 50, preview_mode = False\<rparr>,
           integration_method = RK45, sensitivity = None, tags = None,
           return_data = True, save_artifacts = False\<rparr> g)
     = Inl TypeError"
proof -
  define ev' where "ev' = ev\<lparr>input_schema := None\<rparr>"
  define ts where "ts = \<lparr>start = 0, finish = 1, steps = 50, preview_mode = False\<rparr>"
  define spec where "spec = \<lparr>domain = Finance, model_type = MonteCarlo,
           parameters = [(''seed'', 42), (''n_paths'', 10)],
           initial_conditions = [(''S'', 100)], time_span = ts,
           integration_method = RK45, sensitivity = None, tags = None,
           return_data = True, save_artifacts = False\<rparr>"
  have sel: "parameters spec = [(''seed'', 42), (''n_paths'', 10)]" "initial_conditions spec = [(''S'', 100)]"
    "time_span spec = ts" "integration_method spec = RK45" "start ts = 0" "finish ts = 1"
    "actual_steps ts = 50" "domain spec = Finance" "model_type spec = MonteCarlo"
    by (simp_all add: spec_def ts_def actual_steps_def)
  have gate: "schema_pass ev' spec = SchemaAccepts" by (simp add: schema_pass_def ev'_def)
  have reg: "map_of SOLVERS (domain spec, model_type spec) = Some simulate_monte_carlo"
    by (simp add: registry_lookup sel)
  have "\<exists>t Y m g'. simulate_monte_carlo ev' [(''seed'', 42), (''n_paths'', 10)] [(''S'', 100)] (0, 1) 50 RK45 g
          = (Inr (t, Y, m), g')"
    by (rule mc_succeeds) (simp_all add: dict_get_def py_int_def)
  then obtain t Y m g' where
    run: "simulate_monte_carlo ev' [(''seed'', 42), (''n_paths'', 10)] [(''S'', 100)] (0, 1) 50 RK45 g
            = (Inr (t, Y, m), g')" by blast
  then have run': "simulate_monte_carlo ev' (parameters spec) (initial_conditions spec)
       (start (time_span spec), finish (time_span spec)) (actual_steps (time_span spec))
       (integration_method spec) g = (Inr (t, Y, m), g')" by (simp only: sel)
  from mc_result_shape [OF run] have "float_items ev' m = Inl TypeError" by simp
  then have "shape_output ev' spec t Y m = Inl TypeError" by (rule shape_output_type_error)
  with simulate_model_shapes [OF gate reg run'] have "fst (simulate_model ev' spec g) = Inl TypeError"
    by simp
  then show ?thesis unfolding ev'_def spec_def ts_def .
qed




text \<open>
  C3. For a request whose step count passed the validator (\<open>steps \<ge> 2\<close>), the solver is
  run once, with \<open>min(steps, 100)\<close> steps under preview mode and with \<open>steps\<close> otherwise,
  and \<open>simulate_model\<close> shapes exactly what that run returned. The time points it returned
  are as many as that effective step count, the first is the start of the span and the
  last is its end. For the solvers over the integrator this rests on the integrator
  reporting a successful solution at the requested times.
\<close>

theorem preview_caps_time_points:
  assumes valid: "min_steps (steps (time_span spec)) = Inr (steps (time_span spec))"
    and grid: "integrator_returns_grid ev"
    and gate: "schema_pass ev spec = SchemaAccepts"
    and reg: "map_of SOLVERS (domain spec, model_type spec) = Some solver"
    and run: "solver ev (parameters spec) (initial_conditions spec)
                (start (time_span spec), finish (time_span spec))
                (actual_steps (time_span spec)) (integration_method spec) g = (Inr (t, Y, m), g')"
  shows "simulate_model ev spec g = (shape_output ev spec t Y m, g')
       \<and> int (length t) = (if preview_mode (time_span spec) then min (steps (time_span spec)) 100
                            else steps (time_span spec))
       \<and> hd t = start (time_span spec) \<and> last t = finish (time_span spec)"
proof -
  let ?ts = "time_span spec"
  have two: "2 \<le> actual_steps ?ts" using valid by (rule actual_steps_valid)
  have lin: "np_linspace (start ?ts) (finish ?ts) (actual_steps ?ts) = Inr t"
  proof -
    from registered_solver [OF reg] consider
        (mc) "solver = simulate_monte_carlo"
      | (ode) f where "solver = ode_solver f"
          "f = simulate_sir \<or> f = simulate_lotka_volterra \<or> f = simulate_logistic \<or> f = simulate_projectile"
      by blast
    then show ?thesis
    proof cases
      case mc
      with run mc_result_shape show ?thesis by fastforce
    next
      case (ode f)
      with run have "f ev (parameters spec) (initial_conditions spec) (start ?ts, finish ?ts)
                       (actual_steps ?ts) (integration_method spec) = Inr (t, Y, m)"
        by (simp add: ode_solver_def)
      from ode_results [OF ode(2) this] obtain rhs y0_vec sol where
        "integrate ev rhs (start ?ts, finish ?ts) y0_vec (integration_method spec) (actual_steps ?ts) = Inr sol"
        "t = sol_t sol" by blast
      with grid show ?thesis
        unfolding integrator_returns_grid_def integrate_Inr by fastforce
    qed
  qed
  from linspace_shape [OF two lin] simulate_model_shapes [OF gate reg run]
  show ?thesis by (simp add: actual_steps_def)
qed

text \<open>Preview mode with 1000 requested steps: the Monte Carlo solver is run with 100
  steps and returns 100 time points from 0 to 10.\<close>

theorem preview_caps_time_points_witness:
  "\<forall>ev g. \<exists>t Y m g'.
     simulate_monte_carlo (ev\<lparr>solve_ivp := euler_ivp, input_schema := None\<rparr>)
       [(''seed'', 42)] [(''S'', 100)] (0, 10)
       (actual_steps \<lparr>start = 0, finish = 10, steps = 1000, preview_mode = True\<rparr>) RK45 g
       = (Inr (t, Y, m), g')
     \<and> length t = 100 \<and> hd t = 0 \<and> last t = 10"
proof (intro allI)
  fix ev :: env and g :: rng
  define ev' where "ev' = ev\<lparr>solve_ivp := euler_ivp, input_schema := None\<rparr>"
  define ts where "ts = \<lparr>start = 0, finish = 10, steps = 1000, preview_mode = True\<rparr>"
  define spec where "spec = \<lparr>domain = Finance, model_type = MonteCarlo, parameters = [(''seed'', 42)],
        initial_conditions = [(''S'', 100)], time_span = ts,
        integration_method = RK45, sensitivity = None, tags = None,
        return_data = True, save_artifacts = False\<rparr>"
  have valid: "min_steps (steps (time_span spec)) = Inr (steps (time_span spec))"
    by (simp add: min_steps_def spec_def ts_def)
  have grid: "integrator_returns_grid ev'"
    unfolding ev'_def by (auto simp: integrator_returns_grid_def euler_ivp_def)
  have gate: "schema_pass ev' spec = SchemaAccepts" by (simp add: schema_pass_def ev'_def)
  have reg: "map_of SOLVERS (domain spec, model_type spec) = Some simulate_monte_carlo"
    by (simp add: registry_lookup spec_def)
  have "\<exists>t Y m g'. simulate_monte_carlo ev' [(''seed'', 42)] [(''S'', 100)] (0, 10) (actual_steps ts) RK45 g
          = (Inr (t, Y, m), g')"
    by (rule mc_succeeds) (simp_all add: dict_get_def py_int_def actual_steps_def ts_def)
  then obtain t Y m g' where
    run: "simulate_monte_carlo ev' [(''seed'', 42)] [(''S'', 100)] (0, 10) (actual_steps ts) RK45 g
            = (Inr (t, Y, m), g')" by blast
  have sel: "parameters spec = [(''seed'', 42)]" "initial_conditions spec = [(''S'', 100)]"
    "time_span spec = ts" "integration_method spec = RK45" "start ts = 0" "finish ts = 10"
    "steps ts = 1000" "preview_mode ts"
    by (simp_all add: spec_def ts_def)
  from run have run': "simulate_monte_carlo ev' (parameters spec) (initial_conditions spec)
       (start (time_span spec), finish (time_span spec)) (actual_steps (time_span spec))
       (integration_method spec) g = (Inr (t, Y, m), g')" by (simp only: sel)
  from preview_caps_time_points [OF valid grid gate reg run']
  have "length t = 100 \<and> hd t = 0 \<and> last t = 10" by (simp add: sel)
  with run show "\<exists>t Y m g'.
     simulate_monte_carlo (ev\<lparr>solve_ivp := euler_ivp, input_schema := None\<rparr>)
       [(''seed'', 42)] [(''S'', 100)] (0, 10)
       (actual_steps \<lparr>start = 0, finish = 10, steps = 1000, preview_mode = True\<rparr>) RK45 g
       = (Inr (t, Y, m), g') \<and> length t = 100 \<and> hd t = 0 \<and> last t = 10"
    unfolding ev'_def ts_def by (intro exI [of _ t] exI [of _ Y] exI [of _ m] exI [of _ g'] conjI) simp_all
qed

text \<open>
  C4. In the projectile's initial state vector \<open>[x, y, vx, vy]\<close>, a velocity component the
  caller supplies and that is not zero is used as it is; one that is absent or exactly
  zero is computed as \<open>v0 * cos(angle)\<close> for \<open>vx\<close> and \<open>v0 * sin(angle)\<close> for \<open>vy\<close>, the angle
  taken in degrees and converted to radians (\<open>v0\<close> defaults to 20, the angle to 45).
\<close>

theorem projectile_velocity_components:
  fixes pars y0 :: "real dict"
  shows "(\<forall>v. map_of y0 ''vx'' = Some v \<and> v \<noteq> 0 \<longrightarrow> projectile_y0_vec pars y0 ! 2 = v)
       \<and> (map_of y0 ''vx'' = None \<or> map_of y0 ''vx'' = Some 0 \<longrightarrow>
            projectile_y0_vec pars y0 ! 2
              = dict_get pars ''v0'' 20 * cos (dict_get pars ''angle'' 45 * (pi / 180)))
       \<and> (\<forall>v. map_of y0 ''vy'' = Some v \<and> v \<noteq> 0 \<longrightarrow> projectile_y0_vec pars y0 ! 3 = v)
       \<and> (map_of y0 ''vy'' = None \<or> map_of y0 ''vy'' = Some 0 \<longrightarrow>
            projectile_y0_vec pars y0 ! 3
              = dict_get pars ''v0'' 20 * sin (dict_get pars ''angle'' 45 * (pi / 180)))
       \<and> length (projectile_y0_vec pars y0) = 4"
  by (auto simp: projectile_y0_vec_def np_deg2rad_def Let_def)

text \<open>With \<open>v0 = 10\<close> at 30 degrees: a supplied \<open>vx = 3\<close> is kept, a supplied \<open>vy = 0\<close> and
  an absent \<open>vx\<close> are computed.\<close>

theorem projectile_velocity_components_witness:
  "projectile_y0_vec [(''v0'', 10), (''angle'', 30)] [(''vx'', 3), (''vy'', 0)] ! 2 = 3
   \<and> projectile_y0_vec [(''v0'', 10), (''angle'', 30)] [(''vx'', 3), (''vy'', 0)] ! 3 = 10 * sin (30 * (pi / 180))
   \<and> projectile_y0_vec [(''v0'', 10), (''angle'', 30)] [(''y'', 2)] ! 2 = 10 * cos (30 * (pi / 180))"
  using projectile_velocity_components [of "[(''vx'', 3), (''vy'', 0)]" "[(''v0'', 10), (''angle'', 30)]"]
    projectile_velocity_components [of "[(''y'', 2)]" "[(''v0'', 10), (''angle'', 30)]"]
  by (simp add: dict_get_def)

text \<open>
  C5. Monte Carlo with seed 42, no drift, no volatility, ten paths and initial price 100,
  over a span that does not run backwards and at least one step: the state matrix is
  100 at every time point and the metric \<open>prob_profit_pct\<close> is 0. (The steps are at least
  two for every request the server accepts; on a reversed span the time points after the
  first are NaN: \<open>monte_carlo_reversed_span_nan\<close>.)
\<close>

theorem monte_carlo_zero_drift_constant:
  assumes seed: "map_of pars ''seed'' = Some 42"
    and mu: "map_of pars ''mu'' = Some 0"
    and sigma: "map_of pars ''sigma'' = Some 0"
    and n_paths: "map_of pars ''n_paths'' = Some 10"
    and S0: "map_of y0 ''S'' = Some 100"
    and steps: "1 \<le> nsteps"
    and span: "fst tspan \<le> snd tspan"
  shows "\<exists>t m g'. simulate_monte_carlo ev pars y0 tspan nsteps meth g
             = (Inr (t, [replicate (nat nsteps) (Some 100)], m), g')
           \<and> map_of m ''prob_profit_pct'' = Some (MFloat (Some 0))"
proof (rule mc_frozen)
  show "dict_get pars ''mu'' 0.1 = 0" using mu by (simp add: dict_get_def)
  show "dict_get pars ''sigma'' 0.2 = 0" using sigma by (simp add: dict_get_def)
  show "0 < py_int (dict_get pars ''n_paths'' 100)" using n_paths by (simp add: dict_get_def py_int_def)
  show "map_of pars ''seed'' = Some 42" by (rule seed)
  show "0 \<le> py_int 42" "py_int 42 < 2 ^ 32" by (simp_all add: py_int_def)
  show "dict_get y0 ''S'' 100 = 100" using S0 by (simp add: dict_get_def)
  show "(100::real) \<noteq> 0" by simp
  show "1 \<le> nsteps" by (rule steps)
  show "fst tspan \<le> snd tspan" by (rule span)
qed

theorem monte_carlo_zero_drift_constant_witness:
  "\<forall>ev g. \<exists>t m g'.
     simulate_monte_carlo ev [(''seed'', 42), (''mu'', 0), (''sigma'', 0), (''n_paths'', 10)]
       [(''S'', 100)] (0, 1) 3 RK45 g
       = (Inr (t, [[Some 100, Some 100, Some 100]], m), g')
     \<and> map_of m ''prob_profit_pct'' = Some (MFloat (Some 0))"
proof (intro allI)
  fix ev :: env and g :: rng
  define pars :: "real dict" where "pars = [(''seed'', 42), (''mu'', 0), (''sigma'', 0), (''n_paths'', 10)]"
  define y0 :: "real dict" where "y0 = [(''S'', 100)]"
  have three: "replicate (nat 3) (Some (100::real)) = [Some 100, Some 100, Some 100]"
    by (simp add: numeral_3_eq_3)
  have "\<exists>t m g'. simulate_monte_carlo ev pars y0 (0, 1) 3 RK45 g
             = (Inr (t, [replicate (nat 3) (Some 100)], m), g')
           \<and> map_of m ''prob_profit_pct'' = Some (MFloat (Some 0))"
    by (rule monte_carlo_zero_drift_constant) (simp_all add: pars_def y0_def)
  then show "\<exists>t m g'.
     simulate_monte_carlo ev [(''seed'', 42), (''mu'', 0), (''sigma'', 0), (''n_paths'', 10)]
       [(''S'', 100)] (0, 1) 3 RK45 g
       = (Inr (t, [[Some 100, Some 100, Some 100]], m), g')
     \<and> map_of m ''prob_profit_pct'' = Some (MFloat (Some 0))"
    unfolding three pars_def y0_def .
qed

text \<open>
  C6. For a (domain, model) pair that is not in the registry, a request that passed the
  schema gate gets the error result naming the pair; the random state is returned
  untouched and the answer is the same whatever the integrator and the random source
  are, so no numeric work is done; nothing is raised.
\<close>

theorem unknown_pair_structured_error:
  assumes miss: "map_of SOLVERS (domain spec, model_type spec) = None"
    and gate: "schema_pass ev spec = SchemaAccepts"
  shows "simulate_model ev spec g =
           (Inr (ToolError (''No solver registered for domain='' @ domain_str (domain spec)
                              @ '', model_type='' @ model_type_str (model_type spec))), g)
         \<and> simulate_model (ev\<lparr>solve_ivp := ivp, seeded_stream := sd\<rparr>) spec g = simulate_model ev spec g"
proof -
  have "schema_pass (ev\<lparr>solve_ivp := ivp, seeded_stream := sd\<rparr>) spec = SchemaAccepts"
    using gate by (simp add: schema_pass_def)
  with miss gate show ?thesis by (simp add: simulate_model_def)
qed

theorem unknown_pair_structured_error_witness:
  "\<forall>ev g.
     simulate_model (ev\<lparr>input_schema := None\<rparr>)
       \<lparr>domain = Physics, model_type = SIR, parameters = [], initial_conditions = [],
        time_span = \<lparr>start = 0, finish = 1, steps = 2, preview_mode = False\<rparr>,
        integration_method = RK45, sensitivity = None, tags = None,
        return_data = True, save_artifacts = False\<rparr> g
       = (Inr (ToolError ''No solver registered for domain=physics, model_type=SIR''), g)"
proof (intro allI)
  fix ev :: env and g :: rng
  define ev' where "ev' = ev\<lparr>input_schema := None\<rparr>"
  define spec where "spec = \<lparr>domain = Physics, model_type = SIR, parameters = [], initial_conditions = [],
        time_span = \<lparr>start = 0, finish = 1, steps = 2, preview_mode = False\<rparr>,
        integration_method = RK45, sensitivity = None, tags = None,
        return_data = True, save_artifacts = False\<rparr>"
  have miss: "map_of SOLVERS (domain spec, model_type spec) = None"
    by (simp add: registry_lookup spec_def)
  have gate: "schema_pass ev' spec = SchemaAccepts"
    by (simp add: schema_pass_def ev'_def)
  have "domain_str (domain spec) = ''physics''" "model_type_str (model_type spec) = ''SIR''"
    by (simp_all add: spec_def domain_str_def model_type_str_def)
  with unknown_pair_structured_error [OF miss gate, where g = g]
  have "simulate_model ev' spec g
          = (Inr (ToolError ''No solver registered for domain=physics, model_type=SIR''), g)"
    by simp
  then show "simulate_model (ev\<lparr>input_schema := None\<rparr>)
       \<lparr>domain = Physics, model_type = SIR, parameters = [], initial_conditions = [],
        time_span = \<lparr>start = 0, finish = 1, steps = 2, preview_mode = False\<rparr>,
        integration_method = RK45, sensitivity = None, tags = None,
        return_data = True, save_artifacts = False\<rparr> g
       = (Inr (ToolError ''No solver registered for domain=physics, model_type=SIR''), g)"
    unfolding ev'_def spec_def .
qed

text \<open>
  C7. Two runs of requests that agree on domain, model, parameters, initial conditions,
  time span and method, from any two random states, at any two clock readings and run
  identifiers and on any two file systems (the integrator, the seeding and the
  formatting being the same functions in both), give the same solver result: time
  points, state matrix and metrics, or the same exception. This holds for every solver
  over the integrator, and for Monte Carlo when a seed is supplied. When both runs end in
  a success result, the two results have the same metrics, summary and columns, and the
  same data points when both asked for them.
\<close>

theorem runs_are_reproducible:
  assumes same: "domain s1 = domain s2" "model_type s1 = model_type s2"
      "parameters s1 = parameters s2" "initial_conditions s1 = initial_conditions s2"
      "time_span s1 = time_span s2" "integration_method s1 = integration_method s2"
    and world: "solve_ivp ev1 = solve_ivp ev2" "seeded_stream ev1 = seeded_stream ev2"
      "fstring ev1 = fstring ev2" "float_of_str ev1 = float_of_str ev2"
    and reg: "map_of SOLVERS (domain s1, model_type s1) = Some solver"
    and seeded: "model_type s1 \<noteq> MonteCarlo \<or> map_of (parameters s1) ''seed'' \<noteq> None"
  shows "fst (solver ev1 (parameters s1) (initial_conditions s1)
                (start (time_span s1), finish (time_span s1))
                (actual_steps (time_span s1)) (integration_method s1) g1)
         = fst (solver ev2 (parameters s2) (initial_conditions s2)
                (start (time_span s2), finish (time_span s2))
                (actual_steps (time_span s2)) (integration_method s2) g2)
       \<and> (\<forall>out1 out2.
            fst (simulate_model ev1 s1 g1) = Inr (ToolResult out1)
            \<and> fst (simulate_model ev2 s2 g2) = Inr (ToolResult out2) \<longrightarrow>
              metrics out1 = metrics out2 \<and> summary out1 = summary out2
              \<and> columns out1 = columns out2
              \<and> (return_data s1 = return_data s2 \<longrightarrow> data out1 = data out2))"
proof -
  let ?run = "\<lambda>ev s g. solver ev (parameters s) (initial_conditions s)
                (start (time_span s), finish (time_span s))
                (actual_steps (time_span s)) (integration_method s) g"
  have key: "(domain s1, model_type s1) \<noteq> (Finance, MonteCarlo)
             \<or> map_of (parameters s1) ''seed'' \<noteq> None"
    using seeded by auto
  have "fst (?run ev1 s1 g1) = fst (?run ev1 s1 g2)"
    using reg key by (rule solver_ignores_random_state)
  also have "?run ev1 s1 g2 = ?run ev2 s1 g2"
    using reg world(1-3) by (rule solver_same_collaborators)
  also have "?run ev2 s1 g2 = ?run ev2 s2 g2"
    by (simp add: same)
  finally have solvers: "fst (?run ev1 s1 g1) = fst (?run ev2 s2 g2)" .
  have reg2: "map_of SOLVERS (domain s2, model_type s2) = Some solver"
    using reg same by simp
  have responses: "metrics out1 = metrics out2 \<and> summary out1 = summary out2
              \<and> columns out1 = columns out2
              \<and> (return_data s1 = return_data s2 \<longrightarrow> data out1 = data out2)"
    if ok1: "fst (simulate_model ev1 s1 g1) = Inr (ToolResult out1)"
      and ok2: "fst (simulate_model ev2 s2 g2) = Inr (ToolResult out2)" for out1 out2
  proof -
    from simulate_model_success [OF reg ok1] obtain t Y m numeric s where
      r1: "fst (?run ev1 s1 g1) = Inr (t, Y, m)"
      and o1: "float_items ev1 m = Inr numeric" "summary_of m = Inr s"
        "metrics out1 = numeric" "summary out1 = Some s"
        "columns out1 = Some (''t'' # map fst (initial_conditions s1))"
        "data out1 = (if return_data s1
                        then Some (data_loop t Y (map fst (initial_conditions s1)) [0 ..< length t] [])
                        else None)"
      by blast
    from simulate_model_success [OF reg2 ok2] obtain t' Y' m' numeric' s' where
      r2: "fst (?run ev2 s2 g2) = Inr (t', Y', m')"
      and o2: "float_items ev2 m' = Inr numeric'" "summary_of m' = Inr s'"
        "metrics out2 = numeric'" "summary out2 = Some s'"
        "columns out2 = Some (''t'' # map fst (initial_conditions s2))"
        "data out2 = (if return_data s2
                        then Some (data_loop t' Y' (map fst (initial_conditions s2)) [0 ..< length t'] [])
                        else None)"
      by blast
    from solvers r1 r2 have eq: "t' = t" "Y' = Y" "m' = m" by simp_all
    from o1 o2 float_items_same_parser [OF world(4), of m] show ?thesis
      by (simp add: eq same)
  qed
  from solvers responses show ?thesis by blast
qed

text \<open>Seed 42, ten paths, 252 steps, and an SIR run of ten steps, each from two different
  random states, at two different run identifiers, the second request differing in its
  tags and output flags.\<close>

theorem runs_are_reproducible_witness:
  "\<forall>ev.
     fst (simulate_monte_carlo ev [(''seed'', 42), (''n_paths'', 10)] [(''S'', 100)] (0, 1) 252 RK45 (\<lambda>i. 0))
       = fst (simulate_monte_carlo (ev\<lparr>utc_stamp := ''20260101T000000'', uuid_hex8 := ''0badcafe''\<rparr>)
                [(''seed'', 42), (''n_paths'', 10)] [(''S'', 100)] (0, 1) 252 RK45 (\<lambda>i. real i))
   \<and> fst (ode_solver simulate_sir ev [] [(''S'', 0.99)] (0, 1) 10 RK23 (\<lambda>i. 0))
       = fst (ode_solver simulate_sir (ev\<lparr>utc_stamp := ''20260101T000000'', uuid_hex8 := ''0badcafe''\<rparr>)
                [] [(''S'', 0.99)] (0, 1) 10 RK23 (\<lambda>i. real i))"
proof
  fix ev :: env
  define ev2 where "ev2 = ev\<lparr>utc_stamp := ''20260101T000000'', uuid_hex8 := ''0badcafe''\<rparr>"
  define mc1 where "mc1 = \<lparr>domain = Finance, model_type = MonteCarlo,
      parameters = [(''seed'', 42), (''n_paths'', 10)], initial_conditions = [(''S'', 100)],
      time_span = \<lparr>start = 0, finish = 1, steps = 252, preview_mode = False\<rparr>,
      integration_method = RK45, sensitivity = None, tags = None,
      return_data = True, save_artifacts = False\<rparr>"
  define mc2 where "mc2 = mc1\<lparr>tags := Some [''again''], return_data := False\<rparr>"
  define sir1 where "sir1 = \<lparr>domain = Epidemiology, model_type = SIR,
      parameters = [], initial_conditions = [(''S'', 0.99)],
      time_span = \<lparr>start = 0, finish = 1, steps = 10, preview_mode = False\<rparr>,
      integration_method = RK23, sensitivity = None, tags = None,
      return_data = True, save_artifacts = False\<rparr>"
  define sir2 where "sir2 = sir1\<lparr>save_artifacts := True\<rparr>"
  have world: "solve_ivp ev = solve_ivp ev2" "seeded_stream ev = seeded_stream ev2"
      "fstring ev = fstring ev2" "float_of_str ev = float_of_str ev2"
    by (simp_all add: ev2_def)
  have same_mc: "domain mc1 = domain mc2" "model_type mc1 = model_type mc2"
      "parameters mc1 = parameters mc2" "initial_conditions mc1 = initial_conditions mc2"
      "time_span mc1 = time_span mc2" "integration_method mc1 = integration_method mc2"
    by (simp_all add: mc2_def)
  have same_sir: "domain sir1 = domain sir2" "model_type sir1 = model_type sir2"
      "parameters sir1 = parameters sir2" "initial_conditions sir1 = initial_conditions sir2"
      "time_span sir1 = time_span sir2" "integration_method sir1 = integration_method sir2"
    by (simp_all add: sir2_def)
  have reg_mc: "map_of SOLVERS (domain mc1, model_type mc1) = Some simulate_monte_carlo"
    and reg_sir: "map_of SOLVERS (domain sir1, model_type sir1) = Some (ode_solver simulate_sir)"
    by (simp_all add: registry_lookup mc1_def sir1_def)
  have seeded_mc: "model_type mc1 \<noteq> MonteCarlo \<or> map_of (parameters mc1) ''seed'' \<noteq> None"
    and seeded_sir: "model_type sir1 \<noteq> MonteCarlo \<or> map_of (parameters sir1) ''seed'' \<noteq> None"
    by (simp_all add: mc1_def sir1_def)
  from runs_are_reproducible [OF same_mc world reg_mc seeded_mc, of "\<lambda>i. 0" "\<lambda>i. real i"]
  have mc: "fst (simulate_monte_carlo ev [(''seed'', 42), (''n_paths'', 10)] [(''S'', 100)] (0, 1) 252 RK45 (\<lambda>i. 0))
       = fst (simulate_monte_carlo ev2 [(''seed'', 42), (''n_paths'', 10)] [(''S'', 100)] (0, 1) 252 RK45 (\<lambda>i. real i))"
    by (simp add: mc1_def mc2_def actual_steps_def)
  from runs_are_reproducible [OF same_sir world reg_sir seeded_sir, of "\<lambda>i. 0" "\<lambda>i. real i"]
  have sir: "fst (ode_solver simulate_sir ev [] [(''S'', 0.99)] (0, 1) 10 RK23 (\<lambda>i. 0))
       = fst (ode_solver simulate_sir ev2 [] [(''S'', 0.99)] (0, 1) 10 RK23 (\<lambda>i. real i))"
    by (simp add: sir1_def sir2_def actual_steps_def)
  from mc sir show
   "fst (simulate_monte_carlo ev [(''seed'', 42), (''n_paths'', 10)] [(''S'', 100)] (0, 1) 252 RK45 (\<lambda>i. 0))
       = fst (simulate_monte_carlo (ev\<lparr>utc_stamp := ''20260101T000000'', uuid_hex8 := ''0badcafe''\<rparr>)
                [(''seed'', 42), (''n_paths'', 10)] [(''S'', 100)] (0, 1) 252 RK45 (\<lambda>i. real i))
   \<and> fst (ode_solver simulate_sir ev [] [(''S'', 0.99)] (0, 1) 10 RK23 (\<lambda>i. 0))
       = fst (ode_solver simulate_sir (ev\<lparr>utc_stamp := ''20260101T000000'', uuid_hex8 := ''0badcafe''\<rparr>)
                [] [(''S'', 0.99)] (0, 1) 10 RK23 (\<lambda>i. real i))"
    unfolding ev2_def by (rule conjI)
qed

text \<open>
  C8. When the projectile solver returns, its time points and state matrix are the
  integrator's solution, and the landing index \<open>L\<close> computed from the heights and the
  initial height \<open>y0.get("y", 0)\<close> is the last index at which the height has passed from at
  or above the initial height to below it, and the final grid index when there is no
  such index. The metrics report \<open>range\<close> as \<open>x\<close> at \<open>L\<close>, \<open>t_landing\<close> as the time at \<open>L\<close>
  and \<open>v_final\<close> as the speed \<open>sqrt(vx^2 + vy^2)\<close> at \<open>L\<close>.
\<close>

theorem projectile_landing:
  assumes run: "simulate_projectile ev pars y0 tspan nsteps meth = Inr (t, Y, m)"
  shows "\<exists>sol. integrate ev (projectile_rhs (dict_get pars ''g'' 9.81)) tspan
                 (projectile_y0_vec pars y0) meth nsteps = Inr sol
          \<and> t = sol_t sol \<and> Y = as_floats (sol_y sol)
          \<and> (let h = dict_get y0 ''y'' 0;
                  ys = sol_y sol ! 1;
                  L = landing_index h ys
              in ((\<exists>i. crossing h ys i) \<longrightarrow> crossing h ys L \<and> (\<forall>i. crossing h ys i \<longrightarrow> i \<le> L))
               \<and> ((\<forall>i. \<not> crossing h ys i) \<longrightarrow> L = length ys - 1)
               \<and> map_of m ''range'' = Some (MFloat (Some (sol_y sol ! 0 ! L)))
               \<and> map_of m ''t_landing'' = Some (MFloat (Some (sol_t sol ! L)))
               \<and> map_of m ''v_final'' =
                   Some (MFloat (Some (sqrt ((sol_y sol ! 2 ! L)\<^sup>2 + (sol_y sol ! 3 ! L)\<^sup>2)))))"
proof -
  let ?h = "dict_get y0 ''y'' 0"
  from run obtain sol where
    sol: "integrate ev (projectile_rhs (dict_get pars ''g'' 9.81)) tspan
            (projectile_y0_vec pars y0) meth nsteps = Inr sol"
    unfolding simulate_projectile_def Let_def by (auto simp: bnd_eq_Inr)
  let ?ys = "sol_y sol ! 1"
  let ?L = "landing_index ?h ?ys"
  have idx: "(\<exists>i. crossing ?h ?ys i) \<longrightarrow> crossing ?h ?ys ?L \<and> (\<forall>i. crossing ?h ?ys i \<longrightarrow> i \<le> ?L)"
    using landing_index_last_crossing by blast
  have none: "(\<forall>i. \<not> crossing ?h ?ys i) \<longrightarrow> ?L = length ?ys - 1"
    using landing_index_no_crossing by blast
  from run sol obtain v_final where
      tY: "t = sol_t sol" "Y = as_floats (sol_y sol)"
    and vf: "arr_get (v_total (sol_y sol ! 2) (sol_y sol ! 3)) ?L = Inr v_final"
    and m: "map_of m ''range'' = Some (MFloat (Some (sol_y sol ! 0 ! ?L)))"
           "map_of m ''t_landing'' = Some (MFloat (Some (sol_t sol ! ?L)))"
           "map_of m ''v_final'' = Some (MFloat (Some v_final))"
    unfolding simulate_projectile_def Let_def
    by (auto simp: bnd_eq_Inr arr_get_Inr)
  from vf have "v_final = sqrt ((sol_y sol ! 2 ! ?L)\<^sup>2 + (sol_y sol ! 3 ! ?L)\<^sup>2)"
    by (auto simp: arr_get_Inr v_total_def)
  with m have m3: "map_of m ''v_final'' =
      Some (MFloat (Some (sqrt ((sol_y sol ! 2 ! ?L)\<^sup>2 + (sol_y sol ! 3 ! ?L)\<^sup>2))))"
    by simp
  show ?thesis
    unfolding Let_def
    using sol tY idx none m(1,2) m3 by (intro exI [of _ sol] conjI)
qed

text \<open>A launch with \<open>g = 10\<close>, \<open>vx = 3\<close>, \<open>vy = 5\<close> over five grid points: the heights are
  0, 5, 0, -15, -40, the only passage below the initial height is at index 3, which is
  not the final index 4, and the three metrics are read there.\<close>

theorem projectile_landing_witness:
  "\<forall>ev. \<exists>t Y m.
     simulate_projectile (ev\<lparr>solve_ivp := euler_ivp\<rparr>) [(''g'', 10)] [(''vx'', 3), (''vy'', 5)] (0, 4) 5 RK45
       = Inr (t, Y, m)
     \<and> Y ! 1 = [Some 0, Some 5, Some 0, Some (-15), Some (-40)]
     \<and> crossing 0 [0, 5, 0, -15, -40] 3
     \<and> landing_index 0 [0, 5, 0, -15, -40] = 3
     \<and> map_of m ''range'' = Some (MFloat (Some 9))
     \<and> map_of m ''t_landing'' = Some (MFloat (Some 3))
     \<and> map_of m ''v_final'' = Some (MFloat (Some (sqrt 634)))"
proof (intro allI)
  fix ev :: env
  define ev' where "ev' = ev\<lparr>solve_ivp := euler_ivp\<rparr>"
  define pars :: "real dict" where "pars = [(''g'', 10)]"
  define y0 :: "real dict" where "y0 = [(''vx'', 3), (''vy'', 5)]"
  define t :: "real list" where "t = [0, 1, 2, 3, 4]"
  define A :: "real list list" where
    "A = [[0, 3, 6, 9, 12], [0, 5, 0, -15, -40], [3, 3, 3, 3, 3], [5, -5, -15, -25, -35]]"
  obtain m where run: "simulate_projectile ev' pars y0 (0, 4) 5 RK45 = Inr (t, as_floats A, m)"
    unfolding ev'_def pars_def y0_def t_def A_def using projectile_example by blast
  from projectile_landing [OF run] obtain sol :: ode_result where
      Y: "as_floats A = as_floats (sol_y sol)" and tt: "t = sol_t sol"
    and rest: "(let h = dict_get y0 ''y'' 0; ys = sol_y sol ! 1; L = landing_index h ys
              in ((\<exists>i. crossing h ys i) \<longrightarrow> crossing h ys L \<and> (\<forall>i. crossing h ys i \<longrightarrow> i \<le> L))
               \<and> ((\<forall>i. \<not> crossing h ys i) \<longrightarrow> L = length ys - 1)
               \<and> map_of m ''range'' = Some (MFloat (Some (sol_y sol ! 0 ! L)))
               \<and> map_of m ''t_landing'' = Some (MFloat (Some (sol_t sol ! L)))
               \<and> map_of m ''v_final'' =
                   Some (MFloat (Some (sqrt ((sol_y sol ! 2 ! L)\<^sup>2 + (sol_y sol ! 3 ! L)\<^sup>2)))))"
    by blast
  from Y have sy: "sol_y sol = A" by (simp add: as_floats_inj)
  have c3: "crossing 0 [0, 5, 0, -15, -40] 3" by (simp add: crossing_def)
  have h0: "dict_get y0 ''y'' 0 = 0" by (simp add: dict_get_def y0_def)
  have ys: "A ! 1 = [0, 5, 0, -15, -40]" by (simp add: A_def)
  from rest c3 have last: "crossing 0 [0, 5, 0, -15, -40] (landing_index 0 [0, 5, 0, -15, -40])"
      "3 \<le> landing_index 0 [0, 5, 0, -15, -40]"
    unfolding Let_def sy h0 ys by blast+
  then have L: "landing_index 0 [0, 5, 0, -15, -40] = 3"
    by (auto simp: crossing_def nth_Cons' split: if_splits)
  from rest have metrics: "map_of m ''range'' = Some (MFloat (Some 9))"
      "map_of m ''t_landing'' = Some (MFloat (Some 3))"
      "map_of m ''v_final'' = Some (MFloat (Some (sqrt 634)))"
    unfolding Let_def sy h0 ys L tt [symmetric] by (simp_all add: A_def t_def)
  have Y1: "as_floats A ! 1 = [Some 0, Some 5, Some 0, Some (-15), Some (-40)]"
    by (simp add: as_floats_def A_def)
  from run Y1 c3 L metrics
  show "\<exists>t Y m.
     simulate_projectile (ev\<lparr>solve_ivp := euler_ivp\<rparr>) [(''g'', 10)] [(''vx'', 3), (''vy'', 5)] (0, 4) 5 RK45
       = Inr (t, Y, m)
     \<and> Y ! 1 = [Some 0, Some 5, Some 0, Some (-15), Some (-40)]
     \<and> crossing 0 [0, 5, 0, -15, -40] 3
     \<and> landing_index 0 [0, 5, 0, -15, -40] = 3
     \<and> map_of m ''range'' = Some (MFloat (Some 9))
     \<and> map_of m ''t_landing'' = Some (MFloat (Some 3))
     \<and> map_of m ''v_final'' = Some (MFloat (Some (sqrt 634)))"
    unfolding ev'_def pars_def y0_def
    by (intro exI [of _ t] exI [of _ "as_floats A"] exI [of _ m] conjI)
qed

text \<open>
  C9. With \<open>save_artifacts\<close> set, when writing the CSV or the plot raises, the outcome of
  \<open>simulate_model\<close> is the one of the same solver output shaped without artifacts: the
  failure changes nothing else. Whenever the bundle has its numeric view, that outcome is
  the success result with the summary, the numeric metrics, the columns and the data
  points intact and with an empty artifact list; every model but Monte Carlo has that
  view.
\<close>

theorem artifact_failure_keeps_success:
  assumes gate: "schema_pass ev spec = SchemaAccepts"
    and reg: "map_of SOLVERS (domain spec, model_type spec) = Some solver"
    and run: "solver ev (parameters spec) (initial_conditions spec)
                (start (time_span spec), finish (time_span spec))
                (actual_steps (time_span spec)) (integration_method spec) g = (Inr (t, Y, m), g')"
    and wanted: "save_artifacts spec"
    and fail: "write_csv ev t Y (map fst (initial_conditions spec)) (make_run_id ev spec) = Inl e1
             \<or> write_plot ev t Y (map fst (initial_conditions spec)) (make_run_id ev spec) = Inl e2"
  shows "simulate_model ev spec g = (shape_output ev (spec\<lparr>save_artifacts := False\<rparr>) t Y m, g')
       \<and> (\<forall>numeric s. float_items ev m = Inr numeric \<and> summary_of m = Inr s \<longrightarrow>
            simulate_model ev spec g =
              (Inr (ToolResult
                 \<lparr>status = StatusSuccess,
                  message = ''Simulation completed'',
                  summary = Some s,
                  artifacts = [],
                  metrics = numeric,
                  columns = Some (''t'' # map fst (initial_conditions spec)),
                  data = (if return_data spec
                          then Some (data_loop t Y (map fst (initial_conditions spec)) [0 ..< length t] [])
                          else None)\<rparr>), g'))
       \<and> (model_type spec \<noteq> MonteCarlo \<longrightarrow>
            (\<exists>numeric s. float_items ev m = Inr numeric \<and> summary_of m = Inr s))"
proof -
  have none: "save_artifacts_block ev (save_artifacts spec) t Y (map fst (initial_conditions spec))
                (make_run_id ev spec) = []"
    using fail by (rule artifacts_empty_on_failure)
  have shaped: "simulate_model ev spec g = (shape_output ev spec t Y m, g')"
    using gate reg run by (rule simulate_model_shapes)
  have same: "shape_output ev spec t Y m = shape_output ev (spec\<lparr>save_artifacts := False\<rparr>) t Y m"
    using none by (simp add: shape_output_def Let_def make_run_id_def save_artifacts_block_def)
  have explicit: "simulate_model ev spec g =
              (Inr (ToolResult
                 \<lparr>status = StatusSuccess,
                  message = ''Simulation completed'',
                  summary = Some s,
                  artifacts = [],
                  metrics = numeric,
                  columns = Some (''t'' # map fst (initial_conditions spec)),
                  data = (if return_data spec
                          then Some (data_loop t Y (map fst (initial_conditions spec)) [0 ..< length t] [])
                          else None)\<rparr>), g')"
    if "float_items ev m = Inr numeric" "summary_of m = Inr s" for numeric s
    using that none shaped by (simp add: shape_output_def Let_def)
  have ode: "\<exists>numeric s. float_items ev m = Inr numeric \<and> summary_of m = Inr s"
    if "model_type spec \<noteq> MonteCarlo"
  proof -
    from registered_solver [OF reg] that obtain f where
      f: "solver = ode_solver f"
         "f = simulate_sir \<or> f = simulate_lotka_volterra \<or> f = simulate_logistic \<or> f = simulate_projectile"
      by auto
    with run have "f ev (parameters spec) (initial_conditions spec)
                     (start (time_span spec), finish (time_span spec))
                     (actual_steps (time_span spec)) (integration_method spec) = Inr (t, Y, m)"
      by (simp add: ode_solver_def)
    from ode_metrics_convert [OF f(2) this] show ?thesis by blast
  qed
  from shaped same explicit ode show ?thesis by (intro conjI allI impI) auto
qed

text \<open>An SIR request with artifacts wanted, on a file system that refuses the CSV.\<close>

theorem artifact_failure_keeps_success_witness:
  "\<forall>ev g.
     simulate_model (ev\<lparr>input_schema := None, solve_ivp := euler_ivp,
                        csv_file := (\<lambda>p h r. Some (OtherError ''OSError''))\<rparr>)
       \<lparr>domain = Epidemiology, model_type = SIR, parameters = [],
        initial_conditions = [(''S'', 0.99), (''I'', 0.01), (''R'', 0)],
        time_span = \<lparr>start = 0, finish = 1, steps = 2, preview_mode = False\<rparr>,
        integration_method = RK45, sensitivity = None, tags = None,
        return_data = False, save_artifacts = True\<rparr> g
     = (Inr (ToolResult
          \<lparr>status = StatusSuccess,
           message = ''Simulation completed'',
           summary = Some (fstring ev ''Peak infection {:.4f} at t ~ {:.2f}'' [Some 0.01197, Some 1]),
           artifacts = [],
           metrics = [(''I_peak'', Some 0.01197), (''t_peak'', Some 1)],
           columns = Some [''t'', ''S'', ''I'', ''R''],
           data = None\<rparr>), g)"
proof (intro allI)
  fix ev :: env and g :: rng
  define ev' where "ev' = ev\<lparr>input_schema := None, solve_ivp := euler_ivp,
                        csv_file := (\<lambda>p h r. Some (OtherError ''OSError''))\<rparr>"
  define ic :: "real dict" where "ic = [(''S'', 0.99), (''I'', 0.01), (''R'', 0)]"
  define ts where "ts = \<lparr>start = 0, finish = 1, steps = 2, preview_mode = False\<rparr>"
  define spec where "spec = \<lparr>domain = Epidemiology, model_type = SIR, parameters = [],
      initial_conditions = ic, time_span = ts,
      integration_method = RK45, sensitivity = None, tags = None,
      return_data = False, save_artifacts = True\<rparr>"
  define m where "m = [(''I_peak'', MFloat (Some 0.01197)), (''t_peak'', MFloat (Some 1)),
            (''summary'', MStr (fstring ev ''Peak infection {:.4f} at t ~ {:.2f}'' [Some 0.01197, Some 1]))]"
  define Y where "Y = as_floats [[0.99, 0.98703], [0.01, 0.01197], [0, 0.001]]"
  have ivp: "solve_ivp ev' = euler_ivp" and fs: "fstring ev' = fstring ev" by (simp_all add: ev'_def)
  have gate: "schema_pass ev' spec = SchemaAccepts" by (simp add: schema_pass_def ev'_def)
  have reg: "map_of SOLVERS (domain spec, model_type spec) = Some (ode_solver simulate_sir)"
    by (simp add: registry_lookup spec_def)
  have run: "ode_solver simulate_sir ev' (parameters spec) (initial_conditions spec)
               (start (time_span spec), finish (time_span spec))
               (actual_steps (time_span spec)) (integration_method spec) g = (Inr ([0, 1], Y, m), g)"
    using sir_example [OF ivp, of ic]
    by (simp add: ode_solver_def spec_def ts_def ic_def actual_steps_def m_def Y_def fs)
  have wanted: "save_artifacts spec" by (simp add: spec_def)
  have fail: "write_csv ev' [0, 1] Y (map fst (initial_conditions spec)) (make_run_id ev' spec)
                = Inl (OtherError ''OSError'')
            \<or> write_plot ev' [0, 1] Y (map fst (initial_conditions spec)) (make_run_id ev' spec)
                = Inl (OtherError ''OSError'')"
    by (simp add: write_csv_def ev'_def Let_def)
  have num: "float_items ev' m = Inr [(''I_peak'', Some 0.01197), (''t_peak'', Some 1)]
           \<and> summary_of m = Inr (fstring ev ''Peak infection {:.4f} at t ~ {:.2f}'' [Some 0.01197, Some 1])"
    by (simp add: m_def py_float_def summary_of_def)
  from artifact_failure_keeps_success [OF gate reg run wanted fail] num
  have "simulate_model ev' spec g =
      (Inr (ToolResult
          \<lparr>status = StatusSuccess,
           message = ''Simulation completed'',
           summary = Some (fstring ev ''Peak infection {:.4f} at t ~ {:.2f}'' [Some 0.01197, Some 1]),
           artifacts = [],
           metrics = [(''I_peak'', Some 0.01197), (''t_peak'', Some 1)],
           columns = Some (''t'' # map fst (initial_conditions spec)),
           data = (if return_data spec
                   then Some (data_loop [0, 1] Y (map fst (initial_conditions spec)) [0 ..< length [0::real, 1]] [])
                   else None)\<rparr>), g)"
    by blast
  then show "simulate_model (ev\<lparr>input_schema := None, solve_ivp := euler_ivp,
                        csv_file := (\<lambda>p h r. Some (OtherError ''OSError''))\<rparr>)
       \<lparr>domain = Epidemiology, model_type = SIR, parameters = [],
        initial_conditions = [(''S'', 0.99), (''I'', 0.01), (''R'', 0)],
        time_span = \<lparr>start = 0, finish = 1, steps = 2, preview_mode = False\<rparr>,
        integration_method = RK45, sensitivity = None, tags = None,
        return_data = False, save_artifacts = True\<rparr> g
     = (Inr (ToolResult
          \<lparr>status = StatusSuccess,
           message = ''Simulation completed'',
           summary = Some (fstring ev ''Peak infection {:.4f} at t ~ {:.2f}'' [Some 0.01197, Some 1]),
           artifacts = [],
           metrics = [(''I_peak'', Some 0.01197), (''t_peak'', Some 1)],
           columns = Some [''t'', ''S'', ''I'', ''R''],
           data = None\<rparr>), g)"
    unfolding ev'_def spec_def ic_def ts_def by simp
qed

text \<open>
  C10. The Monte Carlo solver ignores the integration method: two calls that differ only
  in that argument, from the same random state, return the same time grid, state matrix
  and metrics (or raise the same exception) and leave the same random state.
\<close>

theorem monte_carlo_ignores_method:
  "simulate_monte_carlo ev pars y0 tspan nsteps m1 g
     = simulate_monte_carlo ev pars y0 tspan nsteps m2 g"
  by (simp add: simulate_monte_carlo_def)

end
